theory Spec2Isabelle
  imports
    Complex_Main
    "HOL-Library.Char_ord"
    "HOL-Library.List_Lexorder"
    "HOL-Library.Product_Lexorder"
begin

section \<open>Text\<close>

text \<open>
  A Python \<open>str\<close> is modelled as a \<^typ>\<open>string\<close> whose characters are the code points
  below 256 (Latin-1, which holds the Spanish column names and month names of the
  dashboards; the capital O with acute accent is \<open>CHR 0xD3\<close>). Text with a code point
  above 255 is outside the model. The order on strings is the lexicographic order on
  code points, as Python compares \<open>str\<close> values.
\<close>

definition is_space :: "char \<Rightarrow> bool" where
  \<comment> \<open>the characters \<open>str.strip()\<close> removes: TAB, LF, VT, FF, CR, FS, GS, RS, US, SPACE,
      NEL and NBSP\<close>
  "is_space c = ((of_char c :: nat) \<in> {9, 10, 11, 12, 13, 28, 29, 30, 31, 32, 133, 160})"

definition str_strip :: "string \<Rightarrow> string" where
  "str_strip s = dropWhile is_space (rev (dropWhile is_space (rev s)))"

definition trimmed :: "string \<Rightarrow> bool" where
  \<comment> \<open>no white space at either end\<close>
  "trimmed s = (s = [] \<or> (\<not> is_space (hd s) \<and> \<not> is_space (last s)))"

definition upper_char :: "char \<Rightarrow> string" where
  \<comment> \<open>\<open>str.upper()\<close> on one code point: a-z and the accented Latin-1 letters move down by
      32, the sharp s becomes \<open>SS\<close>. The two Latin-1 letters whose capital lies above 255
      (micro sign, y with diaeresis) stay as they are in the model.\<close>
  "upper_char c =
     (let n = (of_char c :: nat) in
      if (97 \<le> n \<and> n \<le> 122) \<or> (224 \<le> n \<and> n \<le> 254 \<and> n \<noteq> 247)
      then [char_of (n - 32)]
      else if n = 223 then ''SS'' else [c])"

definition str_upper :: "string \<Rightarrow> string" where
  "str_upper s = concat (map upper_char s)"

definition upper_strip :: "string \<Rightarrow> string" where
  \<comment> \<open>\<open>.upper().strip()\<close>\<close>
  "upper_strip s = str_strip (str_upper s)"

definition is_lower :: "char \<Rightarrow> bool" where
  "is_lower c =
     (let n = (of_char c :: nat) in
      (97 \<le> n \<and> n \<le> 122) \<or> (223 \<le> n \<and> n \<le> 255 \<and> n \<noteq> 247) \<or> n \<in> {170, 181, 186})"

definition is_upper :: "char \<Rightarrow> bool" where
  "is_upper c =
     (let n = (of_char c :: nat) in
      (65 \<le> n \<and> n \<le> 90) \<or> (192 \<le> n \<and> n \<le> 222 \<and> n \<noteq> 215))"

definition lower_char :: "char \<Rightarrow> char" where
  "lower_char c = (if is_upper c then char_of ((of_char c :: nat) + 32) else c)"

definition title_char :: "char \<Rightarrow> string" where
  \<comment> \<open>the title-case form of a lower-case letter\<close>
  "title_char c = (if (of_char c :: nat) = 223 then ''Ss'' else upper_char c)"

fun str_title_from :: "bool \<Rightarrow> string \<Rightarrow> string" where
  \<comment> \<open>\<open>str.title()\<close>; the flag says whether the previous character was a cased letter\<close>
  "str_title_from prev [] = []"
| "str_title_from prev (c # cs) =
     (if is_lower c then (if prev then [c] else title_char c) @ str_title_from True cs
      else if is_upper c then (if prev then lower_char c else c) # str_title_from True cs
      else c # str_title_from False cs)"

definition str_title :: "string \<Rightarrow> string" where
  "str_title s = str_title_from False s"

definition str_replace_char :: "char \<Rightarrow> char \<Rightarrow> string \<Rightarrow> string" where
  \<comment> \<open>\<open>s.replace(a, b)\<close> for one-character \<open>a\<close> and \<open>b\<close>\<close>
  "str_replace_char a b s = map (\<lambda>c. if c = a then b else c) s"

definition str_remove_char :: "char \<Rightarrow> string \<Rightarrow> string" where
  \<comment> \<open>\<open>s.replace(a, "")\<close> for a one-character \<open>a\<close>\<close>
  "str_remove_char a s = filter (\<lambda>c. c \<noteq> a) s"

fun is_prefix :: "string \<Rightarrow> string \<Rightarrow> bool" where
  "is_prefix [] ys = True"
| "is_prefix (x # xs) [] = False"
| "is_prefix (x # xs) (y # ys) = (x = y \<and> is_prefix xs ys)"

fun str_contains :: "string \<Rightarrow> string \<Rightarrow> bool" where
  \<comment> \<open>\<open>str_contains a s\<close> is Python's \<open>a in s\<close>\<close>
  "str_contains a [] = (a = [])"
| "str_contains a (y # ys) = (is_prefix a (y # ys) \<or> str_contains a ys)"

definition str_zfill :: "nat \<Rightarrow> string \<Rightarrow> string" where
  \<comment> \<open>\<open>s.zfill(width)\<close>: pads on the left with \<open>0\<close>, after a leading sign; never
      shortens\<close>
  "str_zfill width s =
     (if width \<le> length s then s
      else case s of
             [] \<Rightarrow> replicate width (CHR ''0'')
           | c # cs \<Rightarrow>
               if c = CHR ''+'' \<or> c = CHR ''-''
               then c # replicate (width - length s) (CHR ''0'') @ cs
               else replicate (width - length s) (CHR ''0'') @ s)"

definition digit_char :: "nat \<Rightarrow> char" where
  "digit_char d = ''0123456789'' ! d"

function digits :: "int \<Rightarrow> string" where
  \<comment> \<open>the decimal digits of an integer that is not negative\<close>
  "digits i =
     (if i < 10 then [digit_char (nat i)] else digits (i div 10) @ [digit_char (nat (i mod 10))])"
  by pat_completeness auto
termination
  by (relation "measure nat") auto

definition str_of_int :: "int \<Rightarrow> string" where
  \<comment> \<open>\<open>str(i)\<close> of a Python integer\<close>
  "str_of_int i =
     (if i < 0 then CHR ''-'' # digits (- i) else digits i)"

section \<open>Numbers\<close>

text \<open>
  The amounts are \<open>int64\<close> or \<open>float64\<close> values. An \<open>int64\<close> result wraps around: sums and
  differences of integers are taken modulo \<open>2^64\<close>, in the range from \<open>-2^63\<close> to
  \<open>2^63 - 1\<close>.
\<close>

definition wrap64 :: "int \<Rightarrow> int" where
  "wrap64 i = (i + 2 ^ 63) mod 2 ^ 64 - 2 ^ 63"

text \<open>
  A \<open>float64\<close> is one of the three special values of the format or a finite value, read
  as the real number it stands for. An arithmetic operation on finite values returns the
  exact result rounded to a \<open>float64\<close>, which may be an infinity; an exact result of zero
  is zero. The rounding is the platform's, and so is the way a sum of many values is
  accumulated (\<open>groupby(...).agg("sum")\<close> and \<open>Series.sum()\<close> use different kernels):
  they are taken as parameters, together with Python's rendering of a float as text
  (\<open>repr\<close>) and its number formatting (\<open>format\<close> with \<open>,.0f\<close> and \<open>,.2f\<close>). The sign of zero
  is not modelled.
\<close>

datatype fnum = Fin real | PInf | NInf | NaN

record host =
  float_repr :: "real \<Rightarrow> string"
  format_0f :: "fnum \<Rightarrow> string"
  format_2f :: "fnum \<Rightarrow> string"
  round_double :: "real \<Rightarrow> fnum"
  groupby_sum :: "fnum list \<Rightarrow> fnum"
  series_sum :: "fnum list \<Rightarrow> fnum"

definition rnd :: "host \<Rightarrow> real \<Rightarrow> fnum" where
  \<comment> \<open>the \<open>float64\<close> for an exact result\<close>
  "rnd py x = (if x = 0 then Fin 0 else round_double py x)"

fun fneg :: "fnum \<Rightarrow> fnum" where
  "fneg (Fin a) = Fin (- a)"
| "fneg PInf = NInf"
| "fneg NInf = PInf"
| "fneg NaN = NaN"

fun fadd :: "host \<Rightarrow> fnum \<Rightarrow> fnum \<Rightarrow> fnum" where
  "fadd py (Fin a) (Fin b) = rnd py (a + b)"
| "fadd py NaN y = NaN"
| "fadd py x NaN = NaN"
| "fadd py PInf NInf = NaN"
| "fadd py NInf PInf = NaN"
| "fadd py PInf y = PInf"
| "fadd py NInf y = NInf"
| "fadd py x PInf = PInf"
| "fadd py x NInf = NInf"

definition fsub :: "host \<Rightarrow> fnum \<Rightarrow> fnum \<Rightarrow> fnum" where
  "fsub py x y = fadd py x (fneg y)"

definition inf_signed :: "bool \<Rightarrow> fnum" where
  "inf_signed positive = (if positive then PInf else NInf)"

fun fmul :: "host \<Rightarrow> fnum \<Rightarrow> fnum \<Rightarrow> fnum" where
  "fmul py (Fin a) (Fin b) = rnd py (a * b)"
| "fmul py NaN y = NaN"
| "fmul py x NaN = NaN"
| "fmul py (Fin a) PInf = (if a = 0 then NaN else inf_signed (0 < a))"
| "fmul py (Fin a) NInf = (if a = 0 then NaN else inf_signed (a < 0))"
| "fmul py PInf (Fin b) = (if b = 0 then NaN else inf_signed (0 < b))"
| "fmul py NInf (Fin b) = (if b = 0 then NaN else inf_signed (b < 0))"
| "fmul py PInf PInf = PInf"
| "fmul py PInf NInf = NInf"
| "fmul py NInf PInf = NInf"
| "fmul py NInf NInf = PInf"

fun fdiv :: "host \<Rightarrow> fnum \<Rightarrow> fnum \<Rightarrow> fnum" where
  \<comment> \<open>numpy's true division: a nonzero finite value over zero is an infinity, zero over
      zero is NaN, nothing is raised\<close>
  "fdiv py (Fin a) (Fin b) =
     (if b = 0 then (if a = 0 then NaN else inf_signed (0 < a)) else rnd py (a / b))"
| "fdiv py NaN y = NaN"
| "fdiv py x NaN = NaN"
| "fdiv py (Fin a) PInf = Fin 0"
| "fdiv py (Fin a) NInf = Fin 0"
| "fdiv py PInf (Fin b) = inf_signed (0 \<le> b)"
| "fdiv py NInf (Fin b) = inf_signed (b < 0)"
| "fdiv py PInf PInf = NaN"
| "fdiv py PInf NInf = NaN"
| "fdiv py NInf PInf = NaN"
| "fdiv py NInf NInf = NaN"

definition skipna :: "fnum list \<Rightarrow> fnum list" where
  "skipna xs = filter (\<lambda>x. x \<noteq> NaN) xs"

definition pd_sum :: "host \<Rightarrow> fnum list \<Rightarrow> fnum" where
  \<comment> \<open>\<open>Series.sum()\<close> of a \<open>float64\<close> column: missing values are skipped, the empty sum
      is 0\<close>
  "pd_sum py xs = (if skipna xs = [] then Fin 0 else series_sum py (skipna xs))"

definition pd_group_sum :: "host \<Rightarrow> fnum list \<Rightarrow> fnum" where
  \<comment> \<open>the \<open>"sum"\<close> of one group of a \<open>float64\<close> column: missing values are skipped, the
      empty sum is 0\<close>
  "pd_group_sum py xs = (if skipna xs = [] then Fin 0 else groupby_sum py (skipna xs))"

definition replace_inf :: "fnum \<Rightarrow> fnum" where
  \<comment> \<open>\<open>.replace([np.inf, -np.inf], 0)\<close> on one value\<close>
  "replace_inf x = (if x = PInf \<or> x = NInf then Fin 0 else x)"

definition fillna0 :: "fnum \<Rightarrow> fnum" where
  \<comment> \<open>\<open>.fillna(0)\<close> on one value\<close>
  "fillna0 x = (if x = NaN then Fin 0 else x)"

definition replace_inf_nan :: "fnum \<Rightarrow> fnum" where
  \<comment> \<open>\<open>.replace([np.inf, -np.inf, np.nan], 0)\<close> on one value\<close>
  "replace_inf_nan x = (if x = PInf \<or> x = NInf \<or> x = NaN then Fin 0 else x)"

definition fin_val :: "fnum \<Rightarrow> real" where
  \<comment> \<open>the value of a finite number\<close>
  "fin_val x = (case x of Fin a \<Rightarrow> a | _ \<Rightarrow> 0)"

section \<open>Datasets\<close>

text \<open>
  A cell holds text, an integer or a float; the missing value of pandas is the float
  NaN. A dataset is a header of column names and a list of rows, each row aligned with
  the header. The row labels (the index) are not part of the model, and the model
  describes datasets whose column names are distinct.
\<close>

datatype cell = S string | I int | F fnum

record dataframe =
  columns :: "string list"
  rows :: "cell list list"

definition isnull :: "cell \<Rightarrow> bool" where
  "isnull c = (c = F NaN)"

fun py_str :: "host \<Rightarrow> cell \<Rightarrow> string" where
  \<comment> \<open>\<open>str(v)\<close>, and one element of \<open>Series.astype(str)\<close>\<close>
  "py_str py (S s) = s"
| "py_str py (I i) = str_of_int i"
| "py_str py (F (Fin x)) = float_repr py x"
| "py_str py (F PInf) = ''inf''"
| "py_str py (F NInf) = ''-inf''"
| "py_str py (F NaN) = ''nan''"

text \<open>
  The host used to run the model on examples. Its two formats are Python's: the value is
  rounded to the nearest integer, or to two decimals, a tie going to the even digit, and
  the integer part is grouped in thousands. Its arithmetic does not round: it agrees with
  the platform wherever the exact result is a \<open>float64\<close>, as it is for the integers and
  the percentages of the examples. Its \<open>repr\<close> is that of an integral value:
  \<open>repr(5001.0)\<close> is \<open>5001.0\<close>.
\<close>

definition round_half_even :: "real \<Rightarrow> int" where
  "round_half_even x =
     (let n = \<lfloor>x\<rfloor>; d = x - of_int n
      in if d < 1 / 2 then n else if 1 / 2 < d then n + 1 else if even n then n else n + 1)"

fun thousands_rev :: "string \<Rightarrow> string" where
  "thousands_rev (a # b # c # d # ds) = a # b # c # CHR '','' # thousands_rev (d # ds)"
| "thousands_rev ds = ds"

definition thousands :: "string \<Rightarrow> string" where
  \<comment> \<open>a comma before every group of three digits, counted from the right\<close>
  "thousands ds = rev (thousands_rev (rev ds))"

definition two_digits :: "int \<Rightarrow> string" where
  "two_digits m = [digit_char (nat (m div 10)), digit_char (nat (m mod 10))]"

fun format_f :: "bool \<Rightarrow> fnum \<Rightarrow> string" where
  \<comment> \<open>\<open>format(x, ",.2f")\<close> when \<open>decimals\<close> holds, else \<open>format(x, ",.0f")\<close>\<close>
  "format_f decimals (Fin x) =
     (let m = round_half_even (\<bar>x\<bar> * (if decimals then 100 else 1));
          whole = (if decimals then m div 100 else m)
      in (if x < 0 then ''-'' else []) @ thousands (str_of_int whole) @
         (if decimals then ''.'' @ two_digits (m mod 100) else []))"
| "format_f decimals PInf = ''inf''"
| "format_f decimals NInf = ''-inf''"
| "format_f decimals NaN = ''nan''"

fun exact_add :: "fnum \<Rightarrow> fnum \<Rightarrow> fnum" where
  "exact_add (Fin a) (Fin b) = Fin (a + b)"
| "exact_add NaN y = NaN"
| "exact_add x NaN = NaN"
| "exact_add PInf NInf = NaN"
| "exact_add NInf PInf = NaN"
| "exact_add PInf y = PInf"
| "exact_add NInf y = NInf"
| "exact_add x PInf = PInf"
| "exact_add x NInf = NInf"

definition example_host :: host where
  "example_host =
     \<lparr>float_repr = (\<lambda>x. str_of_int \<lfloor>x\<rfloor> @ ''.0''),
      format_0f = format_f False,
      format_2f = format_f True,
      round_double = Fin,
      groupby_sum = foldl exact_add (Fin 0),
      series_sum = foldl exact_add (Fin 0)\<rparr>"

definition cell_at :: "cell list \<Rightarrow> nat \<Rightarrow> cell" where
  "cell_at r i = (if i < length r then r ! i else F NaN)"

fun col_index :: "string list \<Rightarrow> string \<Rightarrow> nat" where
  \<comment> \<open>position of a column name in the header (the length of the header when absent)\<close>
  "col_index [] c = 0"
| "col_index (x # xs) c = (if x = c then 0 else Suc (col_index xs c))"

definition get_cell :: "dataframe \<Rightarrow> string \<Rightarrow> cell list \<Rightarrow> cell" where
  \<comment> \<open>the cell of row \<open>r\<close> in column \<open>c\<close>\<close>
  "get_cell df c r = cell_at r (col_index (columns df) c)"

definition column :: "dataframe \<Rightarrow> string \<Rightarrow> cell list" where
  \<comment> \<open>\<open>df[c]\<close>\<close>
  "column df c = map (get_cell df c) (rows df)"

definition df_empty :: "dataframe \<Rightarrow> bool" where
  \<comment> \<open>\<open>df.empty\<close>: no column or no row\<close>
  "df_empty df = (columns df = [] \<or> rows df = [])"

definition empty_frame :: dataframe where
  \<comment> \<open>\<open>pd.DataFrame()\<close>\<close>
  "empty_frame = \<lparr>columns = [], rows = []\<rparr>"

definition is_int :: "cell \<Rightarrow> bool" where
  "is_int c = (case c of I i \<Rightarrow> True | _ \<Rightarrow> False)"

definition is_num :: "cell \<Rightarrow> bool" where
  "is_num c = (case c of S s \<Rightarrow> False | _ \<Rightarrow> True)"

definition int_val :: "cell \<Rightarrow> int" where
  "int_val c = (case c of I i \<Rightarrow> i | _ \<Rightarrow> 0)"

definition to_float :: "host \<Rightarrow> cell \<Rightarrow> fnum" where
  \<comment> \<open>the \<open>float64\<close> of a number: an integer is converted, and rounded when it has more
      than 53 significant bits\<close>
  "to_float py c = (case c of I i \<Rightarrow> rnd py (of_int i) | F x \<Rightarrow> x | S s \<Rightarrow> NaN)"

definition is_zero :: "cell \<Rightarrow> bool" where
  \<comment> \<open>\<open>v == 0\<close> for a number\<close>
  "is_zero c = (c = I 0 \<or> c = F (Fin 0))"

text \<open>
  Sums, differences and quotients of columns. A column of integers is \<open>int64\<close>: its sums
  and differences are integers and wrap around. Any other column of numbers is
  \<open>float64\<close>. A quotient is always a \<open>float64\<close>: both sides are converted first.
\<close>

definition agg_sum :: "host \<Rightarrow> cell list \<Rightarrow> cell" where
  \<comment> \<open>the \<open>"sum"\<close> of the cells of one group\<close>
  "agg_sum py cs =
     (if list_all is_int cs then I (wrap64 (sum_list (map int_val cs)))
      else F (pd_group_sum py (map (to_float py) cs)))"

definition series_total :: "host \<Rightarrow> cell list \<Rightarrow> cell" where
  \<comment> \<open>\<open>Series.sum()\<close> of a column of numbers\<close>
  "series_total py cs =
     (if list_all is_int cs then I (wrap64 (sum_list (map int_val cs)))
      else F (pd_sum py (map (to_float py) cs)))"

definition cell_sub :: "host \<Rightarrow> cell \<Rightarrow> cell \<Rightarrow> cell" where
  "cell_sub py a b =
     (if is_int a \<and> is_int b then I (wrap64 (int_val a - int_val b))
      else F (fsub py (to_float py a) (to_float py b)))"

definition cell_div :: "host \<Rightarrow> cell \<Rightarrow> cell \<Rightarrow> fnum" where
  "cell_div py a b = fdiv py (to_float py a) (to_float py b)"

datatype error =
    MissingColumn string  \<comment> \<open>pandas raises \<open>KeyError\<close>: the column is not in the dataset\<close>
  | NotNumeric string     \<comment> \<open>text among the amounts to be summed: the sums and the
                              quotients of such a column are outside the model\<close>
  | ColumnClash string    \<comment> \<open>the grouping column carries the name of an amount column or of
                              a derived column; such a call is outside the model\<close>
  | MixedKeys string      \<comment> \<open>\<open>sort_values\<close> cannot compare text with numbers\<close>

subsection \<open>Grouping\<close>

text \<open>
  Two cells are the same key when they are the same text or the same number: the
  integer 1 and the float 1.0 fall into one group, listed under the value met first.
\<close>

definition key_val :: "cell \<Rightarrow> string + fnum" where
  "key_val c = (case c of S s \<Rightarrow> Inl s | I i \<Rightarrow> Inr (Fin (of_int i)) | F x \<Rightarrow> Inr x)"

definition same_key :: "cell \<Rightarrow> cell \<Rightarrow> bool" where
  "same_key a b = (key_val a = key_val b)"

fun uniques :: "cell list \<Rightarrow> cell list" where
  \<comment> \<open>the first cell of every key\<close>
  "uniques [] = []"
| "uniques (c # cs) = c # uniques (filter (\<lambda>d. \<not> same_key c d) cs)"

fun key_ord :: "cell \<Rightarrow> nat \<times> (nat \<times> real) \<times> string" where
  \<comment> \<open>the order in which \<open>groupby\<close> lists its keys: numbers by value, then text by code
      point\<close>
  "key_ord (I i) = (0, (1, of_int i), [])"
| "key_ord (F NInf) = (0, (0, 0), [])"
| "key_ord (F (Fin x)) = (0, (1, x), [])"
| "key_ord (F PInf) = (0, (2, 0), [])"
| "key_ord (F NaN) = (0, (3, 0), [])"
| "key_ord (S s) = (1, (0, 0), s)"

definition nunique :: "cell list \<Rightarrow> nat" where
  \<comment> \<open>\<open>Series.nunique()\<close>: the number of distinct values that are not missing\<close>
  "nunique cs = length (uniques (filter (\<lambda>c. \<not> isnull c) cs))"

definition group_keys :: "cell list \<Rightarrow> cell list" where
  \<comment> \<open>the keys of \<open>groupby\<close>: the distinct values that are not missing, in order\<close>
  "group_keys cs = sort_key key_ord (uniques (filter (\<lambda>c. \<not> isnull c) cs))"

definition group_cells :: "dataframe \<Rightarrow> string \<Rightarrow> string \<Rightarrow> cell \<Rightarrow> cell list" where
  \<comment> \<open>the cells of column \<open>val\<close> in the rows whose \<open>key\<close> cell is \<open>k\<close>\<close>
  "group_cells df key val k =
     map (get_cell df val) (filter (\<lambda>r. same_key (get_cell df key r) k) (rows df))"

definition group_sum :: "host \<Rightarrow> dataframe \<Rightarrow> string \<Rightarrow> string \<Rightarrow> cell \<Rightarrow> cell" where
  \<comment> \<open>the \<open>"sum"\<close> of column \<open>val\<close> over the rows whose \<open>key\<close> cell is \<open>k\<close>\<close>
  "group_sum py df key val k = agg_sum py (group_cells df key val k)"

definition summable :: "dataframe \<Rightarrow> string \<Rightarrow> string \<Rightarrow> bool" where
  \<comment> \<open>every cell of column \<open>val\<close> that enters a group of \<open>key\<close> is a number; the rows
      with a missing key enter no group\<close>
  "summable df key val =
     list_all (\<lambda>r. is_num (get_cell df val r))
       (filter (\<lambda>r. \<not> isnull (get_cell df key r)) (rows df))"

section \<open>Column normalizer and formatting helpers\<close>

definition normalize_name :: "string \<Rightarrow> string" where
  \<comment> \<open>\<open>.str.strip().str.upper().str.replace(" ", "_")\<close> on one column name\<close>
  "normalize_name s = str_replace_char (CHR '' '') (CHR ''_'') (str_upper (str_strip s))"

definition rename_alias :: "string \<Rightarrow> string" where
  \<comment> \<open>\<open>rename(columns={"%_EJECUCION": "PORCENTAJE_EJECUCION"})\<close> on one column name\<close>
  "rename_alias c = (if c = ''%_EJECUCION'' then ''PORCENTAJE_EJECUCION'' else c)"

definition normalize_columns :: "dataframe \<Rightarrow> dataframe" where
  "normalize_columns df =
     (let df1 = df\<lparr>columns := map normalize_name (columns df)\<rparr> in
      if ''%_EJECUCION'' \<in> set (columns df1)
      then df1\<lparr>columns := map rename_alias (columns df1)\<rparr>
      else df1)"

definition fmt_money :: "host \<Rightarrow> cell \<Rightarrow> string" where
  \<comment> \<open>\<open>f"{v:,.0f}"\<close>, which converts an integer to a float first; text cannot be
      formatted as a number and is returned as it is\<close>
  "fmt_money py v = (case v of S s \<Rightarrow> s | _ \<Rightarrow> format_0f py (to_float py v))"

definition fmt_pct :: "host \<Rightarrow> cell \<Rightarrow> string" where
  \<comment> \<open>\<open>f"{v:,.2f}%"\<close>; text is returned as it is\<close>
  "fmt_pct py v = (case v of S s \<Rightarrow> s | _ \<Rightarrow> format_2f py (to_float py v) @ ''%'')"

section \<open>Filter applicator\<close>

text \<open>
  \<open>aplicar_filtro_select\<close> writes into the dataset it is given. The model returns the
  state of the argument after the call together with what the call returns: the
  argument itself (the same object) or a new dataset.
\<close>

datatype returned = Argument | Fresh dataframe

definition set_column :: "dataframe \<Rightarrow> string \<Rightarrow> (cell \<Rightarrow> cell) \<Rightarrow> dataframe" where
  \<comment> \<open>\<open>df.loc[:, col] = f(df[col])\<close>, \<open>f\<close> applied to each cell\<close>
  "set_column df col f =
     df\<lparr>rows := map (\<lambda>r. r[col_index (columns df) col := f (get_cell df col r)]) (rows df)\<rparr>"

definition aplicar_filtro_select ::
  "host \<Rightarrow> dataframe \<Rightarrow> string \<Rightarrow> cell \<Rightarrow> dataframe \<times> returned" where
  "aplicar_filtro_select py df col valor_seleccionado =
     (if col \<notin> set (columns df) \<or> valor_seleccionado = S ''Todos'' then (df, Argument)
      else
        let valor_seleccionado_str = upper_strip (py_str py valor_seleccionado);
            df' = set_column df col (\<lambda>c. S (upper_strip (py_str py c)))
        in (df', Fresh (df'\<lparr>rows := filter (\<lambda>r. get_cell df' col r = S valor_seleccionado_str)
                                          (rows df')\<rparr>)))"

definition argument_after :: "dataframe \<times> returned \<Rightarrow> dataframe" where
  \<comment> \<open>the caller's dataset once the call has returned\<close>
  "argument_after p = fst p"

definition returned_value :: "dataframe \<times> returned \<Rightarrow> dataframe" where
  \<comment> \<open>the dataset the caller receives\<close>
  "returned_value p = (case snd p of Argument \<Rightarrow> fst p | Fresh d \<Rightarrow> d)"

definition passthrough :: "dataframe \<Rightarrow> string \<Rightarrow> cell \<Rightarrow> bool" where
  \<comment> \<open>the guard of \<open>aplicar_filtro_select\<close>\<close>
  "passthrough df col v = (col \<notin> set (columns df) \<or> v = S ''Todos'')"

definition filter_example :: dataframe where
  "filter_example =
     \<lparr>columns = [''MES'', ''TOTAL_PRESUPUESTO''],
      rows = [[S '' ene'', I 3], [S ''Feb'', I 4]]\<rparr>"

section \<open>Aggregation\<close>

text \<open>
  A row of an aggregated table before it is laid out: the group key, the two sums, the
  difference and the percentage.
\<close>

type_synonym kpi_row = "cell \<times> cell \<times> cell \<times> cell \<times> fnum"

definition pct_ejecucion :: "host \<Rightarrow> cell \<Rightarrow> cell \<Rightarrow> fnum" where
  \<comment> \<open>\<open>(E / P).replace([np.inf, -np.inf], 0).fillna(0) * 100\<close> on one group\<close>
  "pct_ejecucion py e p = fmul py (fillna0 (replace_inf (cell_div py e p))) (Fin 100)"

definition metrics :: "host \<Rightarrow> cell \<times> cell \<times> cell \<Rightarrow> kpi_row" where
  \<comment> \<open>the difference and the percentage of one group\<close>
  "metrics py g = (case g of (k, p, e) \<Rightarrow> (k, p, e, cell_sub py e p, pct_ejecucion py e p))"

definition export_row :: "kpi_row \<Rightarrow> cell list" where
  "export_row r = (case r of (k, p, e, d, pc) \<Rightarrow> [k, p, e, d, F pc])"

definition display_row :: "host \<Rightarrow> kpi_row \<Rightarrow> cell list" where
  "display_row py r =
     (case r of (k, p, e, d, pc) \<Rightarrow>
        [k, S (fmt_money py p), S (fmt_money py e), S (fmt_money py d), S (fmt_pct py (F pc))])"

definition col_pct_ejecucion :: string where
  \<comment> \<open>the column name \<open>% Ejecuci\<dots>n\<close>, with o acute\<close>
  "col_pct_ejecucion = ''% Ejecuci'' @ [CHR 0xF3] @ ''n''"

subsection \<open>Components table\<close>

definition componente_groups :: "host \<Rightarrow> dataframe \<Rightarrow> (cell \<times> cell \<times> cell) list" where
  \<comment> \<open>\<open>df.groupby("CONCEPTO").agg(PRESUPUESTO=..., EJECUTADO=...).reset_index()\<close>\<close>
  "componente_groups py df =
     map (\<lambda>k. (k, group_sum py df ''CONCEPTO'' ''PRESUPUESTO'' k,
                  group_sum py df ''CONCEPTO'' ''EJECUTADO'' k))
         (group_keys (column df ''CONCEPTO''))"

definition total_row :: "host \<Rightarrow> (cell \<times> cell \<times> cell) list \<Rightarrow> kpi_row" where
  "total_row py df_group =
     (let total_presupuesto = series_total py (map (\<lambda>g. fst (snd g)) df_group);
          total_ejecutado = series_total py (map (\<lambda>g. snd (snd g)) df_group);
          total_pct_ejecucion =
            (if \<not> is_zero total_presupuesto
             then fmul py (cell_div py total_ejecutado total_presupuesto) (Fin 100) else Fin 0)
      in (S ''TOTAL'', total_presupuesto, total_ejecutado,
          cell_sub py total_ejecutado total_presupuesto, total_pct_ejecucion))"

definition create_componente_table ::
  "host \<Rightarrow> dataframe \<Rightarrow> error + (dataframe \<times> dataframe) option" where
  "create_componente_table py df =
     (if ''CONCEPTO'' \<notin> set (columns df) \<or> nunique (column df ''CONCEPTO'') = 0
         \<or> list_all (\<lambda>c. c = S ''N/A'') (column df ''CONCEPTO'')
      then Inr None
      else if ''PRESUPUESTO'' \<notin> set (columns df) then Inl (MissingColumn ''PRESUPUESTO'')
      else if ''EJECUTADO'' \<notin> set (columns df) then Inl (MissingColumn ''EJECUTADO'')
      else if \<not> summable df ''CONCEPTO'' ''PRESUPUESTO'' then Inl (NotNumeric ''PRESUPUESTO'')
      else if \<not> summable df ''CONCEPTO'' ''EJECUTADO'' then Inl (NotNumeric ''EJECUTADO'')
      else
        let df_group = componente_groups py df;
            df_export_num = map (metrics py) df_group @ [total_row py df_group];
            df_export =
              \<lparr>columns = [''CONCEPTO'', ''PRESUPUESTO'', ''EJECUTADO'', ''Diferencia'',
                          col_pct_ejecucion],
               rows = map export_row df_export_num\<rparr>;
            df_display =
              \<lparr>columns = [''Concepto'', ''Presupuesto'', ''Ejecutado'', ''Diferencia'',
                          col_pct_ejecucion],
               rows = map (display_row py) df_export_num\<rparr>
        in Inr (Some (df_display, df_export)))"

subsection \<open>Detail tables\<close>

definition meses_orden :: "(string \<times> nat) list" where
  "meses_orden =
     [(''ENE'', 1), (''FEB'', 2), (''MAR'', 3), (''ABR'', 4), (''MAY'', 5), (''JUN'', 6),
      (''JUL'', 7), (''AGO'', 8), (''SEP'', 9), (''OCT'', 10), (''NOV'', 11), (''DIC'', 12)]"

definition mes_order :: "host \<Rightarrow> cell \<Rightarrow> nat option" where
  \<comment> \<open>\<open>.astype(str).str.upper().map(meses_orden)\<close> on one key; \<open>None\<close> is the NaN of
      \<open>map\<close>\<close>
  "mes_order py k = map_of meses_orden (str_upper (py_str py k))"

definition order_value :: "nat option \<Rightarrow> nat" where
  "order_value m = (case m of Some n \<Rightarrow> n | None \<Rightarrow> 0)"

definition kpi_clash :: "string \<Rightarrow> bool" where
  \<comment> \<open>the grouping column, or its display name, is the name of another column of the
      tables\<close>
  "kpi_clash group_col =
     (group_col \<in> set [''TOTAL_PRESUPUESTO'', ''TOTAL_EJECUTADO'', ''Presupuesto'', ''Ejecutado'',
                        ''Diferencia'', col_pct_ejecucion]
      \<or> str_title (str_replace_char (CHR ''_'') (CHR '' '') group_col)
           \<in> set [''Presupuesto'', ''Ejecutado'', ''Diferencia'', col_pct_ejecucion])"

definition drop_na_keys :: "dataframe \<Rightarrow> string \<Rightarrow> dataframe" where
  \<comment> \<open>\<open>df[df[group_col] != "N/A"]\<close>\<close>
  "drop_na_keys df group_col =
     df\<lparr>rows := filter (\<lambda>r. get_cell df group_col r \<noteq> S ''N/A'') (rows df)\<rparr>"

definition kpi_groups :: "host \<Rightarrow> dataframe \<Rightarrow> string \<Rightarrow> (cell \<times> cell \<times> cell) list" where
  \<comment> \<open>\<open>df[df[group_col] != "N/A"].groupby(group_col).agg({...: "sum"}).reset_index()\<close>\<close>
  "kpi_groups py df group_col =
     (let kept = drop_na_keys df group_col in
      map (\<lambda>k. (k, group_sum py kept group_col ''TOTAL_PRESUPUESTO'' k,
                   group_sum py kept group_col ''TOTAL_EJECUTADO'' k))
          (group_keys (column kept group_col)))"

definition order_by_month :: "host \<Rightarrow> kpi_row list \<Rightarrow> kpi_row list" where
  \<comment> \<open>the three lines on \<open>MES_ORDER\<close>: map, \<open>dropna\<close>, \<open>sort_values\<close>. pandas leaves the
      order of rows with equal keys open; the model keeps them as they were.\<close>
  "order_by_month py rs =
     sort_key (\<lambda>r. order_value (mes_order py (fst r)))
       (filter (\<lambda>r. mes_order py (fst r) \<noteq> None) rs)"

definition create_kpi_table ::
  "host \<Rightarrow> dataframe \<Rightarrow> string \<Rightarrow> error + (dataframe \<times> dataframe) option" where
  "create_kpi_table py df group_col =
     (if group_col \<notin> set (columns df) \<or> nunique (column df group_col) = 0
         \<or> list_all (\<lambda>c. c = S ''N/A'') (column df group_col)
      then Inr None
      else if kpi_clash group_col then Inl (ColumnClash group_col)
      else if ''TOTAL_PRESUPUESTO'' \<notin> set (columns df)
      then Inl (MissingColumn ''TOTAL_PRESUPUESTO'')
      else if ''TOTAL_EJECUTADO'' \<notin> set (columns df)
      then Inl (MissingColumn ''TOTAL_EJECUTADO'')
      else if \<not> summable (drop_na_keys df group_col) group_col ''TOTAL_PRESUPUESTO''
      then Inl (NotNumeric ''TOTAL_PRESUPUESTO'')
      else if \<not> summable (drop_na_keys df group_col) group_col ''TOTAL_EJECUTADO''
      then Inl (NotNumeric ''TOTAL_EJECUTADO'')
      else
        let df_group = kpi_groups py df group_col in
        if df_group = [] then Inr None
        else
          let df_export_num = map (metrics py) df_group;
              df_export =
                \<lparr>columns = [group_col, ''Presupuesto'', ''Ejecutado'', ''Diferencia'',
                            col_pct_ejecucion],
                 rows = map export_row df_export_num\<rparr>;
              ordered =
                (if group_col = ''MES'' \<and> ''FECHA'' \<in> set (columns df)
                 then order_by_month py df_export_num else df_export_num);
              df_display =
                \<lparr>columns = [str_title (str_replace_char (CHR ''_'') (CHR '' '') group_col),
                            ''Presupuesto'', ''Ejecutado'', ''Diferencia'', col_pct_ejecucion],
                 rows = map (display_row py) ordered\<rparr>
          in Inr (Some (df_display, df_export)))"

subsection \<open>Population summaries\<close>

definition MONTH_ORDER :: "(string \<times> nat) list" where
  "MONTH_ORDER =
     [(''ENERO'', 1), (''FEBRERO'', 2), (''MARZO'', 3), (''ABRIL'', 4), (''MAYO'', 5),
      (''JUNIO'', 6), (''JULIO'', 7), (''AGOSTO'', 8), (''SEPTIEMBRE'', 9), (''OCTUBRE'', 10),
      (''NOVIEMBRE'', 11), (''DICIEMBRE'', 12)]"

definition col_ejecucion :: string where
  \<comment> \<open>\<open>NOMBRE_RAZON_INVERSION\<close>, the column name \<open>% EJECUCI\<dots>N\<close> with capital O acute\<close>
  "col_ejecucion = ''% EJECUCI'' @ [CHR 0xD3] @ ''N''"

definition col_region :: string where
  "col_region = ''REGI'' @ [CHR 0xD3] @ ''N''"

type_synonym pob_group = "cell \<times> cell \<times> cell \<times> cell"

definition pob_groups :: "host \<Rightarrow> dataframe \<Rightarrow> string \<Rightarrow> pob_group list" where
  \<comment> \<open>\<open>df.groupby(key).agg({'PRESUPUESTO': 'sum', 'POBLACION_BDUA': 'sum',
      'POBLACION PAIS': 'sum'}).reset_index()\<close>\<close>
  "pob_groups py df key =
     map (\<lambda>k. (k, group_sum py df key ''PRESUPUESTO'' k, group_sum py df key ''POBLACION_BDUA'' k,
                  group_sum py df key ''POBLACION PAIS'' k))
         (group_keys (column df key))"

definition pct_where :: "host \<Rightarrow> cell \<Rightarrow> cell \<Rightarrow> fnum" where
  \<comment> \<open>\<open>np.where(P != 0, (B / P) * 100, 0)\<close> on one group\<close>
  "pct_where py b p = (if \<not> is_zero p then fmul py (cell_div py b p) (Fin 100) else Fin 0)"

definition pct_divide :: "host \<Rightarrow> cell \<Rightarrow> cell \<Rightarrow> fnum" where
  \<comment> \<open>\<open>np.divide(B, T) * 100\<close>, then \<open>.replace([np.inf, -np.inf, np.nan], 0)\<close>\<close>
  "pct_divide py b t = replace_inf_nan (fmul py (cell_div py b t) (Fin 100))"

definition pob_check :: "dataframe \<Rightarrow> string \<Rightarrow> error option" where
  \<comment> \<open>what \<open>agg\<close> and the divisions need of the three amount columns\<close>
  "pob_check df key =
     (case filter (\<lambda>c. c \<notin> set (columns df)) [''PRESUPUESTO'', ''POBLACION_BDUA'', ''POBLACION PAIS''] of
        c # _ \<Rightarrow> Some (MissingColumn c)
      | [] \<Rightarrow>
        (case filter (\<lambda>c. \<not> summable df key c) [''PRESUPUESTO'', ''POBLACION_BDUA'', ''POBLACION PAIS''] of
           c # _ \<Rightarrow> Some (NotNumeric c)
         | [] \<Rightarrow> None))"

definition ejecucion_first :: "host \<Rightarrow> pob_group \<Rightarrow> cell list" where
  \<comment> \<open>columns: key, the three sums, \<open>% EJECUCI\<dots>N\<close>, \<open>% PARTICIPACION PAIS\<close>\<close>
  "ejecucion_first py g =
     (case g of (k, p, b, t) \<Rightarrow> [k, p, b, t, F (pct_where py b p), F (pct_divide py b t)])"

definition participacion_first :: "host \<Rightarrow> pob_group \<Rightarrow> cell list" where
  \<comment> \<open>columns: key, the three sums, \<open>% PARTICIPACION PAIS\<close>, \<open>% EJECUCI\<dots>N\<close>\<close>
  "participacion_first py g =
     (case g of (k, p, b, t) \<Rightarrow> [k, p, b, t, F (pct_divide py b t), F (pct_where py b p)])"

definition df_regional_viz :: "host \<Rightarrow> dataframe \<Rightarrow> error + dataframe" where
  \<comment> \<open>the summary by \<open>REGIONAL\<close>, largest participation first. pandas leaves the order
      of rows with equal participation open; the model keeps them as they were.\<close>
  "df_regional_viz py df_filtered =
     (if ''REGIONAL'' \<notin> set (columns df_filtered) then Inr empty_frame
      else case pob_check df_filtered ''REGIONAL'' of
        Some e \<Rightarrow> Inl e
      | None \<Rightarrow>
          Inr \<lparr>columns = [''REGIONAL'', ''PRESUPUESTO'', ''POBLACION_BDUA'', ''POBLACION PAIS'',
                          col_ejecucion, ''% PARTICIPACION PAIS''],
               rows = sort_key (\<lambda>r. - fin_val (to_float py (cell_at r 5)))
                        (map (ejecucion_first py) (pob_groups py df_filtered ''REGIONAL''))\<rparr>)"

definition month_order :: "cell \<Rightarrow> nat option" where
  \<comment> \<open>\<open>.map(MONTH_ORDER)\<close> on one key\<close>
  "month_order k = (case k of S s \<Rightarrow> map_of MONTH_ORDER s | _ \<Rightarrow> None)"

definition mes_orden_key :: "cell list \<Rightarrow> nat" where
  \<comment> \<open>the sort key of \<open>sort_values(by='MES_ORDEN')\<close>: NaN sorts after every month\<close>
  "mes_orden_key r = (case month_order (cell_at r 0) of Some n \<Rightarrow> n | None \<Rightarrow> 13)"

definition df_mes_viz :: "host \<Rightarrow> dataframe \<Rightarrow> error + dataframe" where
  \<comment> \<open>the summary by \<open>MES\<close>, in the order of \<open>MONTH_ORDER\<close>\<close>
  "df_mes_viz py df_chart_data_all_months =
     (if ''MES'' \<notin> set (columns df_chart_data_all_months) then Inr empty_frame
      else case pob_check df_chart_data_all_months ''MES'' of
        Some e \<Rightarrow> Inl e
      | None \<Rightarrow>
          Inr \<lparr>columns = [''MES'', ''PRESUPUESTO'', ''POBLACION_BDUA'', ''POBLACION PAIS'',
                          ''% PARTICIPACION PAIS'', col_ejecucion],
               rows = sort_key mes_orden_key
                        (map (participacion_first py)
                             (pob_groups py df_chart_data_all_months ''MES''))\<rparr>)"

definition same_kind :: "cell list \<Rightarrow> bool" where
  \<comment> \<open>all text or all numbers\<close>
  "same_kind ks = (list_all (\<lambda>k. \<not> is_num k) ks \<or> list_all is_num ks)"

definition df_regimen_table_viz :: "host \<Rightarrow> dataframe \<Rightarrow> error + dataframe" where
  \<comment> \<open>the summary by \<open>REGIMEN\<close>, sorted by \<open>REGIMEN\<close>\<close>
  "df_regimen_table_viz py df_filtered =
     (if ''REGIMEN'' \<notin> set (columns df_filtered) then Inr empty_frame
      else case pob_check df_filtered ''REGIMEN'' of
        Some e \<Rightarrow> Inl e
      | None \<Rightarrow>
          if \<not> same_kind (group_keys (column df_filtered ''REGIMEN''))
          then Inl (MixedKeys ''REGIMEN'')
          else
            Inr \<lparr>columns = [''REGIMEN'', ''PRESUPUESTO'', ''POBLACION_BDUA'', ''POBLACION PAIS'',
                            ''% PARTICIPACION PAIS'', col_ejecucion],
                 rows = sort_key (\<lambda>r. key_ord (cell_at r 0))
                          (map (participacion_first py) (pob_groups py df_filtered ''REGIMEN''))\<rparr>)"

subsection \<open>Reading the tables\<close>

definition zero_safe :: "nat \<Rightarrow> nat \<Rightarrow> dataframe \<Rightarrow> bool" where
  \<comment> \<open>in every row of the table, a denominator (column number \<open>den\<close>) that is 0, as an
      integer or as a float, comes with a ratio (column number \<open>ratio\<close>) that is 0\<close>
  "zero_safe den ratio t =
     list_all (\<lambda>r. is_zero (cell_at r den) \<longrightarrow> cell_at r ratio = F (Fin 0)) (rows t)"

definition keys_of :: "dataframe \<Rightarrow> cell list" where
  \<comment> \<open>the first column of an aggregated table: the group keys, row by row\<close>
  "keys_of t = map (\<lambda>r. cell_at r 0) (rows t)"





section \<open>Territorial join\<close>

subsection \<open>Budget page: \<open>mostrar_ingreso\<close>\<close>

definition dane_str :: "host \<Rightarrow> cell \<Rightarrow> string" where
  \<comment> \<open>one element of \<open>.astype(str).str.zfill(5)\<close>, the join key \<open>DANE_STR\<close>\<close>
  "dane_str py c = str_zfill 5 (py_str py c)"

definition dane_col_geo :: "string list \<Rightarrow> string option" where
  \<comment> \<open>the code column of the reference: the first column that reads \<open>DANE\<close> once stripped
      and upper-cased, else the first column\<close>
  "dane_col_geo cols =
     (case filter (\<lambda>c. str_upper (str_strip c) = ''DANE'') cols of
        c # _ \<Rightarrow> Some c
      | [] \<Rightarrow> if ''DANE'' \<notin> set cols then (case cols of c # _ \<Rightarrow> Some c | [] \<Rightarrow> None)
              else None)"

definition geo_candidates :: "string list" where
  "geo_candidates =
     [''REGI'' @ [CHR 0xD3] @ ''N'', ''MUNICIPIO'', ''REGIONAL'', ''ZONAL'', ''PROVINCIA'',
      ''DEPARTAMENTO'', ''CATEGORIA_DEPARTAMENTO'', ''CATEGORIA_MUNICIPIO'',
      ''DESCRIPCI'' @ [CHR 0xD3] @ ''N_ZONA'', ''SUBREGI'' @ [CHR 0xD3] @ ''N'',
      ''DESCRIPCION_ZONA'']"

definition is_geo_col :: "string \<Rightarrow> bool" where
  \<comment> \<open>some candidate, underscores removed, occurs in the column name, underscores
      removed\<close>
  "is_geo_col col =
     list_ex (\<lambda>candidate. str_contains (str_remove_char (CHR ''_'') candidate)
                                       (str_remove_char (CHR ''_'') col))
             geo_candidates"

definition dedup_first :: "'a list \<Rightarrow> 'a list" where
  \<comment> \<open>\<open>list(dict.fromkeys(xs))\<close>: the first occurrence of each element stays\<close>
  "dedup_first xs = rev (remdups (rev xs))"

definition geo_cols_present :: "dataframe \<Rightarrow> string list" where
  \<comment> \<open>the attribute columns of the reference; the loop runs over its header after
      \<open>DANE_STR\<close> has been added\<close>
  "geo_cols_present df_geo =
     dedup_first (filter is_geo_col
       (if ''DANE_STR'' \<in> set (columns df_geo) then columns df_geo
        else columns df_geo @ [''DANE_STR'']))"

definition fill_na :: "cell \<Rightarrow> cell" where
  \<comment> \<open>\<open>.fillna("N/A")\<close> on one cell\<close>
  "fill_na c = (if isnull c then S ''N/A'' else c)"

definition kept_columns :: "dataframe \<Rightarrow> dataframe \<Rightarrow> string list" where
  \<comment> \<open>the columns of the primary dataset that survive: the attribute columns are dropped
      before the merge, \<open>DANE_STR\<close> after it\<close>
  "kept_columns df_poblacion df_geo =
     filter (\<lambda>c. c \<notin> set (geo_cols_present df_geo) \<and> c \<noteq> ''DANE_STR'') (columns df_poblacion)"

definition geo_match :: "host \<Rightarrow> dataframe \<Rightarrow> string \<Rightarrow> string \<Rightarrow> cell list option" where
  \<comment> \<open>the row of the reference for a key: \<open>drop_duplicates(subset=["DANE_STR"])\<close> keeps the
      first row of each key\<close>
  "geo_match py df_geo dane_col key =
     find (\<lambda>g. dane_str py (get_cell df_geo dane_col g) = key) (rows df_geo)"

definition merged_row ::
  "host \<Rightarrow> dataframe \<Rightarrow> dataframe \<Rightarrow> string \<Rightarrow> cell list \<Rightarrow> cell list" where
  \<comment> \<open>one row of \<open>merge(df_geo_unique, how="left", on="DANE_STR")\<close>, after
      \<open>fillna("N/A")\<close> on the attribute columns\<close>
  "merged_row py df_poblacion df_geo dane_col r =
     map (\<lambda>c. get_cell df_poblacion c r) (kept_columns df_poblacion df_geo) @
     map fill_na
       (case geo_match py df_geo dane_col (dane_str py (get_cell df_poblacion ''DANE'' r)) of
          None \<Rightarrow> replicate (length (geo_cols_present df_geo)) (F NaN)
        | Some g \<Rightarrow> map (\<lambda>c. get_cell df_geo c g) (geo_cols_present df_geo))"

definition merge_territorial :: "host \<Rightarrow> dataframe \<Rightarrow> dataframe \<Rightarrow> error + dataframe" where
  \<comment> \<open>the block \<open>Merge con geo\<close> of \<open>mostrar_ingreso\<close>: the value of \<open>df_poblacion\<close> after
      it. On datasets with distinct column names nothing inside its \<open>try\<close> raises.\<close>
  "merge_territorial py df_poblacion df_geo =
     (if df_empty df_geo then Inr df_poblacion
      else case dane_col_geo (columns df_geo) of
        None \<Rightarrow> Inl (MissingColumn ''None'')
      | Some dane_col \<Rightarrow>
          if ''DANE'' \<notin> set (columns df_poblacion) then Inl (MissingColumn ''DANE'')
          else Inr \<lparr>columns = kept_columns df_poblacion df_geo @ geo_cols_present df_geo,
                    rows = map (merged_row py df_poblacion df_geo dane_col)
                               (rows df_poblacion)\<rparr>)"

subsection \<open>Population page: \<open>load_data\<close>\<close>

definition inner_rows ::
  "host \<Rightarrow> dataframe \<Rightarrow> dataframe \<Rightarrow> cell list \<Rightarrow> cell list list" where
  \<comment> \<open>the rows of the inner join that come from one row of the left dataset: one for
      each row of the right dataset with the same \<open>DANE\<close> text\<close>
  "inner_rows py df_poblacion df_territorialidad r =
     map (\<lambda>t. r[col_index (columns df_poblacion) ''DANE'' :=
                  S (py_str py (get_cell df_poblacion ''DANE'' r))] @
               map (\<lambda>c. get_cell df_territorialidad c t)
                   (filter (\<lambda>c. c \<noteq> ''DANE'') (columns df_territorialidad)))
         (filter (\<lambda>t. py_str py (get_cell df_territorialidad ''DANE'' t) =
                       py_str py (get_cell df_poblacion ''DANE'' r))
                 (rows df_territorialidad))"

definition load_data_merge :: "host \<Rightarrow> dataframe \<Rightarrow> dataframe \<Rightarrow> error + dataframe" where
  \<comment> \<open>\<open>df_merged\<close> of \<open>load_data\<close>: both \<open>DANE\<close> columns \<open>.astype(str)\<close>, then
      \<open>pd.merge(..., on='DANE', how='inner')\<close>. The two datasets share no other column
      name.\<close>
  "load_data_merge py df_poblacion df_territorialidad =
     (if ''DANE'' \<notin> set (columns df_poblacion) \<or> ''DANE'' \<notin> set (columns df_territorialidad)
      then Inl (MissingColumn ''DANE'')
      else Inr \<lparr>columns = columns df_poblacion @
                            filter (\<lambda>c. c \<noteq> ''DANE'') (columns df_territorialidad),
                rows = concat (map (inner_rows py df_poblacion df_territorialidad)
                                   (rows df_poblacion))\<rparr>)"


subsection \<open>Reading the joins\<close>

definition no_sign :: "string \<Rightarrow> bool" where
  \<comment> \<open>the text does not start with \<open>+\<close> or \<open>-\<close>\<close>
  "no_sign s = (case s of [] \<Rightarrow> True | c # _ \<Rightarrow> c \<noteq> CHR ''+'' \<and> c \<noteq> CHR ''-'')"

definition has_match :: "host \<Rightarrow> dataframe \<Rightarrow> dataframe \<Rightarrow> cell list \<Rightarrow> bool" where
  \<comment> \<open>some row of the right dataset carries the \<open>DANE\<close> text of the left row \<open>r\<close>\<close>
  "has_match py df_poblacion df_territorialidad r =
     list_ex (\<lambda>t. py_str py (get_cell df_territorialidad ''DANE'' t) =
                    py_str py (get_cell df_poblacion ''DANE'' r))
             (rows df_territorialidad)"

section \<open>Example datasets\<close>

definition zero_comp_example :: dataframe where
  "zero_comp_example =
     \<lparr>columns = [''CONCEPTO'', ''PRESUPUESTO'', ''EJECUTADO''],
      rows = [[S ''UPC'', I 0, I 7], [S ''PYP'', I 0, I 0]]\<rparr>"

definition zero_comp_export :: dataframe where
  "zero_comp_export =
     \<lparr>columns = [''CONCEPTO'', ''PRESUPUESTO'', ''EJECUTADO'', ''Diferencia'', col_pct_ejecucion],
      rows = [[S ''PYP'', I 0, I 0, I 0, F (Fin 0)],
              [S ''UPC'', I 0, I 7, I 7, F (Fin 0)],
              [S ''TOTAL'', I 0, I 7, I 7, F (Fin 0)]]\<rparr>"

definition zero_comp_display :: dataframe where
  "zero_comp_display =
     \<lparr>columns = [''Concepto'', ''Presupuesto'', ''Ejecutado'', ''Diferencia'', col_pct_ejecucion],
      rows = [[S ''PYP'', S ''0'', S ''0'', S ''0'', S ''0.00%''],
              [S ''UPC'', S ''0'', S ''7'', S ''7'', S ''0.00%''],
              [S ''TOTAL'', S ''0'', S ''7'', S ''7'', S ''0.00%'']]\<rparr>"

definition zero_kpi_example :: dataframe where
  "zero_kpi_example =
     \<lparr>columns = [''REGIMEN'', ''TOTAL_PRESUPUESTO'', ''TOTAL_EJECUTADO''],
      rows = [[S ''SUBSIDIADO'', I 0, I 7], [S ''CONTRIBUTIVO'', I 50, I 10]]\<rparr>"

definition zero_kpi_export :: dataframe where
  "zero_kpi_export =
     \<lparr>columns = [''REGIMEN'', ''Presupuesto'', ''Ejecutado'', ''Diferencia'', col_pct_ejecucion],
      rows = [[S ''CONTRIBUTIVO'', I 50, I 10, I (- 40), F (Fin 20)],
              [S ''SUBSIDIADO'', I 0, I 7, I 7, F (Fin 0)]]\<rparr>"

definition zero_kpi_display :: dataframe where
  "zero_kpi_display =
     \<lparr>columns = [''Regimen'', ''Presupuesto'', ''Ejecutado'', ''Diferencia'', col_pct_ejecucion],
      rows = [[S ''CONTRIBUTIVO'', S ''50'', S ''10'', S ''-40'', S ''20.00%''],
              [S ''SUBSIDIADO'', S ''0'', S ''7'', S ''7'', S ''0.00%'']]\<rparr>"

definition zero_pob_example :: dataframe where
  "zero_pob_example =
     \<lparr>columns = [''REGIONAL'', ''MES'', ''REGIMEN'', ''PRESUPUESTO'', ''POBLACION_BDUA'',
                 ''POBLACION PAIS''],
      rows = [[S ''NORTE'', S ''ENERO'', S ''SUBSIDIADO'', I 0, I 5, I 0]]\<rparr>"

definition zero_regional :: dataframe where
  "zero_regional =
     \<lparr>columns = [''REGIONAL'', ''PRESUPUESTO'', ''POBLACION_BDUA'', ''POBLACION PAIS'',
                 col_ejecucion, ''% PARTICIPACION PAIS''],
      rows = [[S ''NORTE'', I 0, I 5, I 0, F (Fin 0), F (Fin 0)]]\<rparr>"

definition zero_mes :: dataframe where
  "zero_mes =
     \<lparr>columns = [''MES'', ''PRESUPUESTO'', ''POBLACION_BDUA'', ''POBLACION PAIS'',
                 ''% PARTICIPACION PAIS'', col_ejecucion],
      rows = [[S ''ENERO'', I 0, I 5, I 0, F (Fin 0), F (Fin 0)]]\<rparr>"

definition zero_regimen :: dataframe where
  "zero_regimen =
     \<lparr>columns = [''REGIMEN'', ''PRESUPUESTO'', ''POBLACION_BDUA'', ''POBLACION PAIS'',
                 ''% PARTICIPACION PAIS'', col_ejecucion],
      rows = [[S ''SUBSIDIADO'', I 0, I 5, I 0, F (Fin 0), F (Fin 0)]]\<rparr>"










definition month_example :: dataframe where
  "month_example =
     \<lparr>columns = [''MES'', ''TOTAL_PRESUPUESTO'', ''TOTAL_EJECUTADO'', ''FECHA''],
      rows = [[S ''MAR'', I 200, I 90, S ''2025-03-01''],
              [S ''ENE'', I 50, I 10, S ''2025-01-01''],
              [S ''DIC'', I 100, I 10, S ''2025-12-01'']]\<rparr>"

definition month_export :: dataframe where
  "month_export =
     \<lparr>columns = [''MES'', ''Presupuesto'', ''Ejecutado'', ''Diferencia'', col_pct_ejecucion],
      rows = [[S ''DIC'', I 100, I 10, I (- 90), F (Fin 10)],
              [S ''ENE'', I 50, I 10, I (- 40), F (Fin 20)],
              [S ''MAR'', I 200, I 90, I (- 110), F (Fin 45)]]\<rparr>"

definition month_display :: dataframe where
  "month_display =
     \<lparr>columns = [''Mes'', ''Presupuesto'', ''Ejecutado'', ''Diferencia'', col_pct_ejecucion],
      rows = [[S ''ENE'', S ''50'', S ''10'', S ''-40'', S ''20.00%''],
              [S ''MAR'', S ''200'', S ''90'', S ''-110'', S ''45.00%''],
              [S ''DIC'', S ''100'', S ''10'', S ''-90'', S ''10.00%'']]\<rparr>"

definition month_example_unknown :: dataframe where
  "month_example_unknown =
     \<lparr>columns = [''MES'', ''TOTAL_PRESUPUESTO'', ''TOTAL_EJECUTADO'', ''FECHA''],
      rows = [[S ''MAR'', I 200, I 90, S ''2025-03-01''],
              [S ''XYZ'', I 10, I 5, F NaN],
              [S ''ENE'', I 50, I 10, S ''2025-01-01'']]\<rparr>"

definition month_unknown_export :: dataframe where
  "month_unknown_export =
     \<lparr>columns = [''MES'', ''Presupuesto'', ''Ejecutado'', ''Diferencia'', col_pct_ejecucion],
      rows = [[S ''ENE'', I 50, I 10, I (- 40), F (Fin 20)],
              [S ''MAR'', I 200, I 90, I (- 110), F (Fin 45)],
              [S ''XYZ'', I 10, I 5, I (- 5), F (Fin 50)]]\<rparr>"

definition month_unknown_display :: dataframe where
  "month_unknown_display =
     \<lparr>columns = [''Mes'', ''Presupuesto'', ''Ejecutado'', ''Diferencia'', col_pct_ejecucion],
      rows = [[S ''ENE'', S ''50'', S ''10'', S ''-40'', S ''20.00%''],
              [S ''MAR'', S ''200'', S ''90'', S ''-110'', S ''45.00%'']]\<rparr>"

definition month_pob_example :: dataframe where
  "month_pob_example =
     \<lparr>columns = [''MES'', ''PRESUPUESTO'', ''POBLACION_BDUA'', ''POBLACION PAIS''],
      rows = [[S ''MARZO'', I 10, I 5, I 100], [S ''ENERO'', I 10, I 5, I 100],
              [S ''DICIEMBRE'', I 10, I 5, I 100]]\<rparr>"

definition month_pob_summary :: dataframe where
  "month_pob_summary =
     \<lparr>columns = [''MES'', ''PRESUPUESTO'', ''POBLACION_BDUA'', ''POBLACION PAIS'',
                 ''% PARTICIPACION PAIS'', col_ejecucion],
      rows = [[S ''ENERO'', I 10, I 5, I 100, F (Fin 5), F (Fin 50)],
              [S ''MARZO'', I 10, I 5, I 100, F (Fin 5), F (Fin 50)],
              [S ''DICIEMBRE'', I 10, I 5, I 100, F (Fin 5), F (Fin 50)]]\<rparr>"


subsection \<open>Joins\<close>

definition join_budget :: dataframe where
  "join_budget =
     \<lparr>columns = [''DANE'', ''MUNICIPIO'', ''TOTAL_PRESUPUESTO''],
      rows = [[I 5001, S ''old'', I 10], [S ''99999'', S ''old'', I 20]]\<rparr>"

definition join_geo :: dataframe where
  "join_geo =
     \<lparr>columns = [''DANE'', ''MUNICIPIO'', ''REGIONAL''],
      rows = [[S ''05001'', S ''MEDELLIN'', S ''NOROCCIDENTE'']]\<rparr>"

definition join_budget_merged :: dataframe where
  "join_budget_merged =
     \<lparr>columns = [''DANE'', ''TOTAL_PRESUPUESTO'', ''MUNICIPIO'', ''REGIONAL''],
      rows = [[I 5001, I 10, S ''MEDELLIN'', S ''NOROCCIDENTE''],
              [S ''99999'', I 20, S ''N/A'', S ''N/A'']]\<rparr>"

definition join_pob :: dataframe where
  "join_pob =
     \<lparr>columns = [''DANE'', ''POBLACION_BDUA''],
      rows = [[S ''05001'', I 7], [S ''99999'', I 9]]\<rparr>"

definition join_pob_codes :: dataframe where
  "join_pob_codes =
     \<lparr>columns = [''DANE'', ''POBLACION_BDUA''],
      rows = [[I 5001, I 7]]\<rparr>"

definition join_terr :: dataframe where
  "join_terr =
     \<lparr>columns = [''DANE'', ''REGIONAL''],
      rows = [[S ''05001'', S ''NOROCCIDENTE'']]\<rparr>"

definition join_pob_merged :: dataframe where
  "join_pob_merged =
     \<lparr>columns = [''DANE'', ''POBLACION_BDUA'', ''REGIONAL''],
      rows = [[S ''05001'', I 7, S ''NOROCCIDENTE'']]\<rparr>"

definition join_pob_codes_merged :: dataframe where
  "join_pob_codes_merged =
     \<lparr>columns = [''DANE'', ''POBLACION_BDUA'', ''REGIONAL''], rows = []\<rparr>"


subsection \<open>Wrap-around\<close>




section \<open>Properties of the text operations\<close>

lemma upper_char_fix: "d \<in> set (upper_char c) \<Longrightarrow> upper_char d = [d]"
  by (auto simp: upper_char_def Let_def split: if_splits)

lemma upper_char_nonempty: "upper_char c \<noteq> []"
  by (auto simp: upper_char_def Let_def)

lemma upper_char_space:
  assumes "d \<in> set (upper_char c)"
  shows "is_space d = is_space c"
proof -
  let ?n = "of_char c :: nat"
  consider (letter) "(97 \<le> ?n \<and> ?n \<le> 122) \<or> (224 \<le> ?n \<and> ?n \<le> 254 \<and> ?n \<noteq> 247)"
    | (sharp) "?n = 223" 
    | (other) "\<not> ((97 \<le> ?n \<and> ?n \<le> 122) \<or> (224 \<le> ?n \<and> ?n \<le> 254 \<and> ?n \<noteq> 247))" "?n \<noteq> 223"
    by blast
  then show ?thesis
  proof cases
    case letter
    then have d: "d = char_of (?n - 32)"
      using assms by (simp add: upper_char_def Let_def)
    have m: "(of_char d :: nat) = ?n - 32"
      unfolding d using letter by (auto simp: )
    have "\<not> is_space d"
      unfolding is_space_def m using letter by simp arith
    moreover have "\<not> is_space c"
      unfolding is_space_def using letter by simp arith
    ultimately show ?thesis by simp
  next
    case sharp
    then have "d = CHR ''S''"
      using assms by (simp add: upper_char_def Let_def)
    then show ?thesis using sharp by (simp add: is_space_def)
  next
    case other
    then have "d = c"
      using assms by (auto simp: upper_char_def Let_def split: if_splits)
    then show ?thesis by simp
  qed
qed

lemma str_upper_fixed: "\<forall>d\<in>set s. upper_char d = [d] \<Longrightarrow> str_upper s = s"
  unfolding str_upper_def by (induction s) auto

lemma set_str_upper: "set (str_upper s) = (\<Union>c\<in>set s. set (upper_char c))"
  unfolding str_upper_def by auto

lemma str_upper_idem: "str_upper (str_upper s) = str_upper s"
  by (rule str_upper_fixed) (auto simp: set_str_upper upper_char_fix)

lemma str_upper_Nil_iff: "str_upper s = [] \<longleftrightarrow> s = []"
  unfolding str_upper_def by (cases s) (auto simp: upper_char_nonempty)

lemma hd_str_upper: "s \<noteq> [] \<Longrightarrow> is_space (hd (str_upper s)) = is_space (hd s)"
  unfolding str_upper_def
  by (cases s) (auto simp: upper_char_nonempty upper_char_space)

lemma last_str_upper: "s \<noteq> [] \<Longrightarrow> is_space (last (str_upper s)) = is_space (last s)"
  unfolding str_upper_def
  by (induction s rule: rev_induct) (auto simp: upper_char_nonempty upper_char_space)

lemma str_strip_trimmed: "trimmed (str_strip s)"
  unfolding trimmed_def str_strip_def
  by (metis dropWhile_eq_Nil_conv dropWhile_eq_self_iff dropWhile_last
      hd_dropWhile last_rev rev.simps(1))

lemma str_strip_fixed: "trimmed s \<Longrightarrow> str_strip s = s"
  unfolding trimmed_def str_strip_def
  by (metis last_rev dropWhile_eq_self_iff rev_swap rev.simps(1))

lemma set_str_strip: "set (str_strip s) \<subseteq> set s"
proof
  fix x
  assume "x \<in> set (str_strip s)"
  then have "x \<in> set (rev (dropWhile is_space (rev s)))"
    unfolding str_strip_def by (rule set_dropWhileD)
  then have "x \<in> set (dropWhile is_space (rev s))" by simp
  then have "x \<in> set (rev s)" by (rule set_dropWhileD)
  then show "x \<in> set s" by simp
qed

lemma trimmed_str_upper: "trimmed s \<Longrightarrow> trimmed (str_upper s)"
  unfolding trimmed_def by (auto simp: str_upper_Nil_iff hd_str_upper last_str_upper)

lemma replace_space_char:
  "\<not> is_space c \<Longrightarrow> \<not> is_space (if c = CHR '' '' then CHR ''_'' else c)"
  by (cases "c = CHR '' ''") (simp_all add: is_space_def)

lemma trimmed_replace: "trimmed s \<Longrightarrow> trimmed (str_replace_char (CHR '' '') (CHR ''_'') s)"
proof (cases "s = []")
  case True
  then show ?thesis by (simp add: trimmed_def str_replace_char_def)
next
  case False
  assume "trimmed s"
  with False have h: "\<not> is_space (hd s)" and l: "\<not> is_space (last s)"
    by (simp_all add: trimmed_def)
  have "\<not> is_space (if hd s = CHR '' '' then CHR ''_'' else hd s)"
    using h by (rule replace_space_char)
  moreover have "\<not> is_space (if last s = CHR '' '' then CHR ''_'' else last s)"
    using l by (rule replace_space_char)
  ultimately show ?thesis using False
    by (simp only: trimmed_def str_replace_char_def hd_map last_map map_is_Nil_conv
        simp_thms)
qed

lemma upper_char_underscore: "upper_char (CHR ''_'') = ''_''"
  by (simp add: upper_char_def)

lemma str_upper_replace:
  "str_upper (str_replace_char (CHR '' '') (CHR ''_'') (str_upper t)) =
   str_replace_char (CHR '' '') (CHR ''_'') (str_upper t)"
  by (rule str_upper_fixed)
     (auto simp: str_replace_char_def set_str_upper upper_char_fix upper_char_underscore)

lemma str_replace_idem:
  "a \<noteq> b \<Longrightarrow> str_replace_char a b (str_replace_char a b s) = str_replace_char a b s"
  by (simp add: str_replace_char_def)

lemma upper_strip_idem: "upper_strip (upper_strip s) = upper_strip s"
proof -
  let ?t = "str_strip (str_upper s)"
  have "\<forall>d\<in>set ?t. upper_char d = [d]"
    using set_str_strip [of "str_upper s"] by (auto simp: set_str_upper upper_char_fix)
  then have "str_upper ?t = ?t" by (rule str_upper_fixed)
  moreover have "str_strip ?t = ?t" by (rule str_strip_fixed) (rule str_strip_trimmed)
  ultimately show ?thesis by (simp add: upper_strip_def)
qed

section \<open>The column normalizer is idempotent\<close>

lemma normalize_name_idem: "normalize_name (normalize_name s) = normalize_name s"
proof -
  let ?u = "str_upper (str_strip s)"
  let ?v = "str_replace_char (CHR '' '') (CHR ''_'') ?u"
  have "trimmed ?v"
    by (intro trimmed_replace trimmed_str_upper str_strip_trimmed)
  then have "str_strip ?v = ?v" by (rule str_strip_fixed)
  then show ?thesis
    by (simp add: normalize_name_def str_upper_replace str_replace_idem)
qed

lemma normalize_name_alias:
  "normalize_name ''PORCENTAJE_EJECUCION'' = ''PORCENTAJE_EJECUCION''"
  by (simp add: normalize_name_def str_strip_def is_space_def str_upper_def upper_char_def
      str_replace_char_def)

lemma normalize_columns_alt:
  "normalize_columns df = df\<lparr>columns := map (rename_alias \<circ> normalize_name) (columns df)\<rparr>"
proof -
  have eq: "map rename_alias xs = xs" if "''%_EJECUCION'' \<notin> set xs" for xs :: "string list"
    using that by (induction xs) (auto simp: rename_alias_def)
  show ?thesis
  proof (cases "''%_EJECUCION'' \<in> set (map normalize_name (columns df))")
    case True
    then show ?thesis by (simp add: normalize_columns_def Let_def)
  next
    case False
    then have "map (rename_alias \<circ> normalize_name) (columns df) = map normalize_name (columns df)"
      using eq [of "map normalize_name (columns df)"] by simp
    with False show ?thesis by (simp add: normalize_columns_def Let_def)
  qed
qed

lemma rename_normalize_idem:
  "rename_alias (normalize_name (rename_alias (normalize_name c))) =
   rename_alias (normalize_name c)"
  using normalize_name_alias normalize_name_idem [of c]
  by (cases "normalize_name c = ''%_EJECUCION''") (simp_all add: rename_alias_def)

lemma columns_normalize_columns:
  "columns (normalize_columns df) = map (rename_alias \<circ> normalize_name) (columns df)"
  by (simp add: normalize_columns_alt)

text \<open>
  Claim C7. Normalizing the column names of a dataset twice gives the same dataset,
  column names and data, as normalizing them once.
\<close>

theorem normalize_columns_idempotent:
  "normalize_columns (normalize_columns df) = normalize_columns df"
  unfolding normalize_columns_alt [of "normalize_columns df"] columns_normalize_columns
  by (simp add: normalize_columns_alt rename_normalize_idem)

section \<open>The filter applicator\<close>

lemma col_index_less: "c \<in> set cols \<Longrightarrow> col_index cols c < length cols"
  by (induction cols) auto

lemma col_index_inj:
  "col \<in> set cols \<Longrightarrow> col_index cols c = col_index cols col \<Longrightarrow> c = col"
  by (induction cols) (auto split: if_splits)

lemma cell_at_update_other: "j \<noteq> i \<Longrightarrow> cell_at (r[i := x]) j = cell_at r j"
  by (simp add: cell_at_def)

lemma cell_at_text: "cell_at r i = S s \<Longrightarrow> i < length r \<and> r ! i = S s"
  by (simp add: cell_at_def split: if_splits)

lemma columns_set_column: "columns (set_column df col f) = columns df"
  by (simp add: set_column_def)

lemma rows_set_column:
  "rows (set_column df col f) =
   map (\<lambda>r. r[col_index (columns df) col := f (cell_at r (col_index (columns df) col))]) (rows df)"
  by (simp add: set_column_def get_cell_def)

lemma column_set_column_other:
  assumes "col \<in> set (columns df)" and "c \<noteq> col"
  shows "column (set_column df col f) c = column df c"
proof -
  have "col_index (columns df) c \<noteq> col_index (columns df) col"
    using assms col_index_inj by blast
  then show ?thesis
    by (simp add: column_def get_cell_def columns_set_column rows_set_column
        cell_at_update_other comp_def)
qed

lemma aplicar_passthrough:
  "passthrough df col v \<Longrightarrow> aplicar_filtro_select py df col v = (df, Argument)"
  by (simp add: aplicar_filtro_select_def passthrough_def)

lemma aplicar_filter:
  "\<not> passthrough df col v \<Longrightarrow>
   aplicar_filtro_select py df col v =
     (set_column df col (\<lambda>c. S (upper_strip (py_str py c))),
      Fresh \<lparr>columns = columns df,
             rows = filter (\<lambda>r. cell_at r (col_index (columns df) col) = S (upper_strip (py_str py v)))
                      (rows (set_column df col (\<lambda>c. S (upper_strip (py_str py c)))))\<rparr>)"
  by (simp add: aplicar_filtro_select_def passthrough_def Let_def get_cell_def
      columns_set_column set_column_def)

text \<open>
  Claim C8. With the selection \<open>Todos\<close>, or with a column that the dataset does not have,
  \<open>aplicar_filtro_select\<close> returns the dataset it was given: the same object, hence the
  same rows in the same order with the same values.
\<close>

theorem aplicar_filtro_select_passthrough: 
  "col \<notin> set (columns df) \<or> valor_seleccionado = S ''Todos'' \<Longrightarrow>
   aplicar_filtro_select py df col valor_seleccionado = (df, Argument) \<and>
   returned_value (aplicar_filtro_select py df col valor_seleccionado) = df"
  by (simp add: aplicar_filtro_select_def returned_value_def)

text \<open>
  Claim C5, as amended. \<open>aplicar_filtro_select\<close> makes no copy. When the column is absent
  or the selection is \<open>Todos\<close> it returns its argument untouched. Otherwise it overwrites
  the filtered column of its argument in place with the text of each cell, upper-cased and
  stripped, and returns a new dataset: the rows of the overwritten argument whose cell in
  that column is the selection, upper-cased and stripped, under the same header. The
  header, the number of rows and every other column of the argument stay as they were.
\<close>

theorem aplicar_filtro_select_frame:
  "columns (argument_after (aplicar_filtro_select py df col v)) = columns df \<and>
   length (rows (argument_after (aplicar_filtro_select py df col v))) = length (rows df) \<and>
   (c \<noteq> col \<longrightarrow> column (argument_after (aplicar_filtro_select py df col v)) c = column df c) \<and>
   (if col \<notin> set (columns df) \<or> v = S ''Todos''
    then aplicar_filtro_select py df col v = (df, Argument)
    else argument_after (aplicar_filtro_select py df col v) =
           set_column df col (\<lambda>c. S (upper_strip (py_str py c))) \<and>
         snd (aplicar_filtro_select py df col v) =
           Fresh \<lparr>columns = columns df,
                  rows = filter (\<lambda>r. get_cell df col r = S (upper_strip (py_str py v)))
                           (rows (set_column df col (\<lambda>c. S (upper_strip (py_str py c)))))\<rparr> \<and>
         returned_value (aplicar_filtro_select py df col v) =
           \<lparr>columns = columns df,
            rows = filter (\<lambda>r. get_cell df col r = S (upper_strip (py_str py v)))
                     (rows (argument_after (aplicar_filtro_select py df col v)))\<rparr>)"
proof (cases "passthrough df col v")
  case True
  then show ?thesis
    by (simp add: aplicar_passthrough argument_after_def) (simp add: passthrough_def)
next
  case False
  then have "col \<in> set (columns df)" by (simp add: passthrough_def)
  then show ?thesis using False
    by (simp add: aplicar_filter argument_after_def returned_value_def columns_set_column
        rows_set_column column_set_column_other get_cell_def) (simp add: passthrough_def)
qed

text \<open>
  Claim C9. Filtering the result of a filter again, on the same column and value, gives
  the same dataset as filtering once.
\<close>

theorem aplicar_filtro_select_idempotent:
  "returned_value (aplicar_filtro_select py
      (returned_value (aplicar_filtro_select py df col v)) col v) =
   returned_value (aplicar_filtro_select py df col v)"
proof (cases "passthrough df col v")
  case True
  then show ?thesis by (simp add: aplicar_passthrough returned_value_def)
next
  case False
  let ?i = "col_index (columns df) col"
  let ?nv = "upper_strip (py_str py v)"
  let ?U = "\<lambda>r. r[?i := S (upper_strip (py_str py (cell_at r ?i)))]"
  let ?P = "\<lambda>r. cell_at r ?i = S ?nv"
  let ?d1 = "\<lparr>columns = columns df, rows = filter ?P (map ?U (rows df))\<rparr>"
  have first: "returned_value (aplicar_filtro_select py df col v) = ?d1"
    using False by (simp add: aplicar_filter returned_value_def rows_set_column)
  have np: "\<not> passthrough ?d1 col v"
    using False by (simp add: passthrough_def)
  have U_id: "?U r = r" if "?P r" for r
  proof -
    from that have "?i < length r" and "r ! ?i = S ?nv"
      using cell_at_text by blast+
    then show ?thesis using that by (simp add: upper_strip_idem list_update_same_conv)
  qed
  have "map ?U (filter ?P xs) = filter ?P xs" for xs
  proof (rule map_idI)
    fix r
    assume "r \<in> set (filter ?P xs)"
    then have "?P r" by simp
    then show "?U r = r" by (rule U_id)
  qed
  then have "filter ?P (map ?U (filter ?P (map ?U (rows df)))) = filter ?P (map ?U (rows df))"
    by simp
  then have "returned_value (aplicar_filtro_select py ?d1 col v) = ?d1"
    using np by (simp add: aplicar_filter returned_value_def rows_set_column)
  then show ?thesis by (simp only: first)
qed

lemma filter_example_run:
  "aplicar_filtro_select example_host filter_example ''MES'' (S ''ENE'') =
     (\<lparr>columns = [''MES'', ''TOTAL_PRESUPUESTO''], rows = [[S ''ENE'', I 3], [S ''FEB'', I 4]]\<rparr>,
      Fresh \<lparr>columns = [''MES'', ''TOTAL_PRESUPUESTO''], rows = [[S ''ENE'', I 3]]\<rparr>)"
  by code_simp

text \<open>
  Claim C5 as stated fails: after filtering on \<open>MES = ENE\<close> the caller's dataset holds
  \<open>ENE\<close> and \<open>FEB\<close> where it held \<open>" ene"\<close> and \<open>Feb\<close>.
\<close>

theorem aplicar_filtro_select_writes_argument:
  "argument_after (aplicar_filtro_select example_host filter_example ''MES'' (S ''ENE'')) =
     \<lparr>columns = [''MES'', ''TOTAL_PRESUPUESTO''], rows = [[S ''ENE'', I 3], [S ''FEB'', I 4]]\<rparr> \<and>
   argument_after (aplicar_filtro_select example_host filter_example ''MES'' (S ''ENE'')) \<noteq>
     filter_example"
  by (simp add: filter_example_run argument_after_def) (simp add: filter_example_def)

theorem aplicar_filtro_select_passthrough_witness:
  "aplicar_filtro_select example_host filter_example ''MES'' (S ''Todos'') =
     (filter_example, Argument) \<and>
   returned_value (aplicar_filtro_select example_host filter_example ''MES'' (S ''Todos'')) =
     filter_example \<and>
   aplicar_filtro_select example_host filter_example ''REGIMEN'' (S ''SUBSIDIADO'') =
     (filter_example, Argument) \<and>
   returned_value
     (aplicar_filtro_select example_host filter_example ''REGIMEN'' (S ''SUBSIDIADO'')) =
     filter_example"
proof -
  have sentinel: "''MES'' \<notin> set (columns filter_example) \<or> S ''Todos'' = S ''Todos''"
    by simp
  have absent:
    "''REGIMEN'' \<notin> set (columns filter_example) \<or> S ''SUBSIDIADO'' = S ''Todos''"
    by (simp add: filter_example_def)
  show ?thesis
    using aplicar_filtro_select_passthrough [OF sentinel, of example_host]
      aplicar_filtro_select_passthrough [OF absent, of example_host]
    by blast
qed

theorem aplicar_filtro_select_frame_witness:
  "''MES'' \<in> set (columns filter_example) \<and>
   column (argument_after (aplicar_filtro_select example_host filter_example ''MES'' (S ''ENE'')))
     ''TOTAL_PRESUPUESTO'' = column filter_example ''TOTAL_PRESUPUESTO'' \<and>
   argument_after (aplicar_filtro_select example_host filter_example ''MES'' (S ''ENE'')) =
     set_column filter_example ''MES'' (\<lambda>c. S (upper_strip (py_str example_host c))) \<and>
   snd (aplicar_filtro_select example_host filter_example ''MES'' (S ''ENE'')) =
     Fresh \<lparr>columns = [''MES'', ''TOTAL_PRESUPUESTO''], rows = [[S ''ENE'', I 3]]\<rparr>"
proof -
  have matching:
    "\<lparr>columns = columns filter_example,
      rows = filter (\<lambda>r. get_cell filter_example ''MES'' r =
                            S (upper_strip (py_str example_host (S ''ENE''))))
               (rows (set_column filter_example ''MES''
                        (\<lambda>c. S (upper_strip (py_str example_host c)))))\<rparr> =
     \<lparr>columns = [''MES'', ''TOTAL_PRESUPUESTO''], rows = [[S ''ENE'', I 3]]\<rparr>"
    by code_simp
  have other: "''TOTAL_PRESUPUESTO'' \<noteq> ''MES''"
    by simp
  have present: "''MES'' \<in> set (columns filter_example)"
    by (simp add: filter_example_def)
  have selection: "S ''ENE'' \<noteq> S ''Todos''"
    by simp
  show ?thesis
    using other present selection
      aplicar_filtro_select_frame
        [of example_host filter_example "''MES''" "S ''ENE''" "''TOTAL_PRESUPUESTO''"]
    unfolding matching [symmetric]
    by (auto split: if_splits)
qed

theorem aplicar_filtro_select_idempotent_witness:
  "returned_value (aplicar_filtro_select example_host filter_example ''MES'' (S ''ENE'')) =
     \<lparr>columns = [''MES'', ''TOTAL_PRESUPUESTO''], rows = [[S ''ENE'', I 3]]\<rparr> \<and>
   returned_value (aplicar_filtro_select example_host
       (returned_value (aplicar_filtro_select example_host filter_example ''MES'' (S ''ENE'')))
       ''MES'' (S ''ENE'')) =
     \<lparr>columns = [''MES'', ''TOTAL_PRESUPUESTO''], rows = [[S ''ENE'', I 3]]\<rparr>"
proof -
  have once:
    "returned_value (aplicar_filtro_select example_host filter_example ''MES'' (S ''ENE'')) =
       \<lparr>columns = [''MES'', ''TOTAL_PRESUPUESTO''], rows = [[S ''ENE'', I 3]]\<rparr>"
    by (simp add: filter_example_run returned_value_def)
  show ?thesis
    using once
      aplicar_filtro_select_idempotent [of example_host filter_example "''MES''" "S ''ENE''"]
    by (simp only: simp_thms)
qed

section \<open>Grouping\<close>



lemma same_key_text_left: "same_key (S s) c \<longleftrightarrow> c = S s"
  by (cases c) (auto simp: same_key_def key_val_def)



lemma uniques_Nil_iff: "uniques cs = [] \<longleftrightarrow> cs = []"
  by (cases cs) simp_all




lemma sorted_group_keys: "sorted (map key_ord (group_keys cs))"
  by (simp add: group_keys_def)








section \<open>Sums of integers\<close>








section \<open>Ratios with a zero denominator\<close>

lemma to_float_zero: "is_zero p \<Longrightarrow> to_float py p = Fin 0"
  by (auto simp: is_zero_def to_float_def rnd_def)

lemma fdiv_zero:
  "replace_inf_nan (fdiv py x (Fin 0)) = Fin 0"
  "fillna0 (replace_inf (fdiv py x (Fin 0))) = Fin 0"
  by (cases x; simp add: replace_inf_nan_def replace_inf_def fillna0_def inf_signed_def)+

lemma fdiv_zero_special:
  "fdiv py x (Fin 0) = NaN \<or> fdiv py x (Fin 0) = PInf \<or> fdiv py x (Fin 0) = NInf"
  by (cases x) (simp_all add: inf_signed_def)

lemma pct_ejecucion_zero: "is_zero p \<Longrightarrow> pct_ejecucion py e p = Fin 0"
  by (simp add: pct_ejecucion_def cell_div_def to_float_zero fdiv_zero rnd_def)

lemma pct_where_zero: "is_zero p \<Longrightarrow> pct_where py b p = Fin 0"
  by (simp add: pct_where_def)

lemma pct_divide_zero: "is_zero t \<Longrightarrow> pct_divide py b t = Fin 0"
  using fdiv_zero_special [of py "to_float py b"]
  by (auto simp: pct_divide_def cell_div_def to_float_zero replace_inf_nan_def inf_signed_def)

lemma total_row_zero:
  "total_row py gs = (k, p, e, d, pc) \<Longrightarrow> is_zero p \<Longrightarrow> pc = Fin 0"
  by (auto simp: total_row_def Let_def)

lemma metrics_zero: "metrics py g = (k, p, e, d, pc) \<Longrightarrow> is_zero p \<Longrightarrow> pc = Fin 0"
  by (cases g) (auto simp: metrics_def pct_ejecucion_zero)

lemma export_row_cells:
  "cell_at (export_row (k, p, e, d, pc)) 1 = p" "cell_at (export_row (k, p, e, d, pc)) 4 = F pc"
  "cell_at (export_row (k, p, e, d, pc)) 0 = k"
  by (simp_all add: export_row_def cell_at_def)

lemma zero_safe_export:
  assumes "\<And>k p e d pc. (k, p, e, d, pc) \<in> set rs \<Longrightarrow> is_zero p \<Longrightarrow> pc = Fin 0"
  shows "zero_safe 1 4 \<lparr>columns = cs, rows = map export_row rs\<rparr>"
  unfolding zero_safe_def list_all_iff
proof (clarsimp)
  fix k p e d pc
  assume "(k, p, e, d, pc) \<in> set rs" "is_zero (cell_at (export_row (k, p, e, d, pc)) (Suc 0))"
  then show "cell_at (export_row (k, p, e, d, pc)) 4 = F (Fin 0)"
    using assms [of k p e d pc] by (simp add: export_row_def cell_at_def)
qed

lemma componente_export:
  assumes "create_componente_table py df = Inr (Some (d, e))"
  shows "e = \<lparr>columns = [''CONCEPTO'', ''PRESUPUESTO'', ''EJECUTADO'', ''Diferencia'', col_pct_ejecucion],
              rows = map export_row (map (metrics py) (componente_groups py df) @
                                     [total_row py (componente_groups py df)])\<rparr>"
    and "d = \<lparr>columns = [''Concepto'', ''Presupuesto'', ''Ejecutado'', ''Diferencia'', col_pct_ejecucion],
              rows = map (display_row py) (map (metrics py) (componente_groups py df) @
                                           [total_row py (componente_groups py df)])\<rparr>"
  using assms by (auto simp: create_componente_table_def Let_def split: if_splits)

lemma kpi_export:
  assumes "create_kpi_table py df g = Inr (Some (d, e))"
  shows "e = \<lparr>columns = [g, ''Presupuesto'', ''Ejecutado'', ''Diferencia'', col_pct_ejecucion],
              rows = map export_row (map (metrics py) (kpi_groups py df g))\<rparr>"
    and "rows d = map (display_row py)
           (if g = ''MES'' \<and> ''FECHA'' \<in> set (columns df)
            then order_by_month py (map (metrics py) (kpi_groups py df g))
            else map (metrics py) (kpi_groups py df g))"
    and "kpi_groups py df g \<noteq> []"
  using assms by (auto simp: create_kpi_table_def Let_def split: if_splits)

lemma zero_safe_componente:
  assumes "create_componente_table py df = Inr (Some (d, e))"
  shows "zero_safe 1 4 e"
  unfolding componente_export(1) [OF assms]
  by (rule zero_safe_export) (auto dest: metrics_zero [OF sym] total_row_zero [OF sym])

lemma zero_safe_kpi:
  assumes "create_kpi_table py df g = Inr (Some (d, e))"
  shows "zero_safe 1 4 e"
  unfolding kpi_export(1) [OF assms]
  by (rule zero_safe_export) (auto dest: metrics_zero [OF sym])

lemma ejecucion_first_safe:
  "is_zero (cell_at (ejecucion_first py g) 1) \<Longrightarrow> cell_at (ejecucion_first py g) 4 = F (Fin 0)"
  "is_zero (cell_at (ejecucion_first py g) 3) \<Longrightarrow> cell_at (ejecucion_first py g) 5 = F (Fin 0)"
  by (cases g; simp add: ejecucion_first_def cell_at_def pct_where_zero pct_divide_zero)+

lemma participacion_first_safe:
  "is_zero (cell_at (participacion_first py g) 1) \<Longrightarrow>
   cell_at (participacion_first py g) 5 = F (Fin 0)"
  "is_zero (cell_at (participacion_first py g) 3) \<Longrightarrow>
   cell_at (participacion_first py g) 4 = F (Fin 0)"
  by (cases g; simp add: participacion_first_def cell_at_def pct_where_zero pct_divide_zero)+

lemma zero_safe_regional:
  assumes "df_regional_viz py df = Inr t"
  shows "zero_safe 1 4 t \<and> zero_safe 3 5 t"
  using assms
  by (auto simp: df_regional_viz_def zero_safe_def list_all_iff empty_frame_def
      ejecucion_first_safe split: if_splits option.splits)

lemma zero_safe_mes:
  assumes "df_mes_viz py df = Inr t"
  shows "zero_safe 1 5 t \<and> zero_safe 3 4 t"
  using assms
  by (auto simp: df_mes_viz_def zero_safe_def list_all_iff empty_frame_def
      participacion_first_safe split: if_splits option.splits)

lemma zero_safe_regimen:
  assumes "df_regimen_table_viz py df = Inr t"
  shows "zero_safe 1 5 t \<and> zero_safe 3 4 t"
  using assms
  by (auto simp: df_regimen_table_viz_def zero_safe_def list_all_iff empty_frame_def
      participacion_first_safe split: if_splits option.splits)

text \<open>
  Claim C2. In the export tables of \<open>create_componente_table\<close> (group rows and \<open>TOTAL\<close> row)
  and of \<open>create_kpi_table\<close>, and in the summaries by \<open>REGIONAL\<close>, \<open>MES\<close> and \<open>REGIMEN\<close> of
  the population page (execution over \<open>PRESUPUESTO\<close>, participation over
  \<open>POBLACION PAIS\<close>), a row whose denominator sum is 0, as an integer or as a float, has
  the ratio 0, whatever the numerator is: never NaN, never an infinity.
\<close>

theorem ratio_zero_when_denominator_zero:
  "(create_componente_table py df_comp = Inr (Some (d_comp, e_comp)) \<longrightarrow> zero_safe 1 4 e_comp) \<and>
   (create_kpi_table py df_kpi group_col = Inr (Some (d_kpi, e_kpi)) \<longrightarrow> zero_safe 1 4 e_kpi) \<and>
   (df_regional_viz py df_pob = Inr t_regional \<longrightarrow> zero_safe 1 4 t_regional \<and> zero_safe 3 5 t_regional) \<and>
   (df_mes_viz py df_pob = Inr t_mes \<longrightarrow> zero_safe 1 5 t_mes \<and> zero_safe 3 4 t_mes) \<and>
   (df_regimen_table_viz py df_pob = Inr t_regimen \<longrightarrow> zero_safe 1 5 t_regimen \<and> zero_safe 3 4 t_regimen)"
  using zero_safe_componente zero_safe_kpi zero_safe_regional zero_safe_mes zero_safe_regimen
  by blast


lemma zero_comp_run:
  "create_componente_table example_host zero_comp_example =
     Inr (Some (zero_comp_display, zero_comp_export))"
  by code_simp

lemma zero_kpi_run:
  "create_kpi_table example_host zero_kpi_example ''REGIMEN'' =
     Inr (Some (zero_kpi_display, zero_kpi_export))"
  by code_simp

lemma zero_pob_run:
  "df_regional_viz example_host zero_pob_example = Inr zero_regional"
  "df_mes_viz example_host zero_pob_example = Inr zero_mes"
  "df_regimen_table_viz example_host zero_pob_example = Inr zero_regimen"
  by code_simp+

theorem ratio_zero_when_denominator_zero_witness:
  "create_componente_table example_host zero_comp_example =
     Inr (Some (zero_comp_display, zero_comp_export)) \<and>
   [S ''UPC'', I 0, I 7, I 7, F (Fin 0)] \<in> set (rows zero_comp_export) \<and>
   zero_safe 1 4 zero_comp_export \<and>
   create_kpi_table example_host zero_kpi_example ''REGIMEN'' =
     Inr (Some (zero_kpi_display, zero_kpi_export)) \<and>
   [S ''SUBSIDIADO'', I 0, I 7, I 7, F (Fin 0)] \<in> set (rows zero_kpi_export) \<and>
   zero_safe 1 4 zero_kpi_export \<and>
   df_regional_viz example_host zero_pob_example = Inr zero_regional \<and>
   zero_safe 1 4 zero_regional \<and> zero_safe 3 5 zero_regional \<and>
   df_mes_viz example_host zero_pob_example = Inr zero_mes \<and>
   zero_safe 1 5 zero_mes \<and> zero_safe 3 4 zero_mes \<and>
   df_regimen_table_viz example_host zero_pob_example = Inr zero_regimen \<and>
   zero_safe 1 5 zero_regimen \<and> zero_safe 3 4 zero_regimen"
proof -
  have "[S ''UPC'', I 0, I 7, I 7, F (Fin 0)] \<in> set (rows zero_comp_export)"
    by (simp add: zero_comp_export_def)
  moreover
  have "[S ''SUBSIDIADO'', I 0, I 7, I 7, F (Fin 0)] \<in> set (rows zero_kpi_export)"
    by (simp add: zero_kpi_export_def)
  ultimately show ?thesis
    using zero_comp_run zero_kpi_run zero_pob_run
      ratio_zero_when_denominator_zero
        [where py = example_host and df_comp = zero_comp_example and d_comp = zero_comp_display
           and e_comp = zero_comp_export and df_kpi = zero_kpi_example
           and group_col = "''REGIMEN''" and d_kpi = zero_kpi_display and e_kpi = zero_kpi_export
           and df_pob = zero_pob_example and t_regional = zero_regional and t_mes = zero_mes
           and t_regimen = zero_regimen]
    by blast
qed


section \<open>The total row\<close>


lemma metrics_sums:
  "fst (metrics py g) = fst g" "fst (snd (metrics py g)) = fst (snd g)"
  "fst (snd (snd (metrics py g))) = snd (snd g)"
  by (cases g; simp add: metrics_def)+








section \<open>Rows with the key N/A\<close>

lemma get_cell_drop_na_keys [simp]: "get_cell (drop_na_keys df g) c r = get_cell df c r"
  by (simp add: drop_na_keys_def get_cell_def)

lemma columns_drop_na_keys [simp]: "columns (drop_na_keys df g) = columns df"
  by (simp add: drop_na_keys_def)




lemma kpi_groups_keys:
  "map fst (kpi_groups py df g) = group_keys (column (drop_na_keys df g) g)"
  by (simp add: kpi_groups_def Let_def comp_def)

















section \<open>Month ordering\<close>

lemma month_run:
  "create_kpi_table example_host month_example ''MES'' = Inr (Some (month_display, month_export))"
  by code_simp

lemma month_unknown_run:
  "create_kpi_table example_host month_example_unknown ''MES'' =
     Inr (Some (month_unknown_display, month_unknown_export))"
  by code_simp

lemma month_pob_run: "df_mes_viz example_host month_pob_example = Inr month_pob_summary"
  by code_simp

lemma map_insort_key:
  "map g (insort_key (\<lambda>x. f (g x)) a ys) = insort_key f (g a) (map g ys)"
  by (induction ys) auto

lemma map_sort_key: "map g (sort_key (\<lambda>x. f (g x)) xs) = sort_key f (map g xs)"
  by (induction xs) (simp_all add: map_insort_key)

lemma display_row_key: "cell_at (display_row py r) 0 = fst r"
  by (cases r) (simp add: display_row_def cell_at_def)

lemma export_row_key: "cell_at (export_row r) 0 = fst r"
  by (cases r) (simp add: export_row_def cell_at_def)

lemma keys_order_by_month:
  "map fst (order_by_month py rs) =
   sort_key (\<lambda>k. order_value (mes_order py k)) (filter (\<lambda>k. mes_order py k \<noteq> None) (map fst rs))"
proof -
  have "map fst (sort_key (\<lambda>r. order_value (mes_order py (fst r))) xs) =
        sort_key (\<lambda>k. order_value (mes_order py k)) (map fst xs)" for xs :: "kpi_row list"
    by (rule map_sort_key)
  then show ?thesis
    by (simp add: order_by_month_def filter_map comp_def)
qed

lemma kpi_month_tables:
  assumes "create_kpi_table py df ''MES'' = Inr (Some (d, e))" and "''FECHA'' \<in> set (columns df)"
  shows "rows e = map export_row (map (metrics py) (kpi_groups py df ''MES''))"
    and "rows d = map (display_row py) (order_by_month py (map (metrics py) (kpi_groups py df ''MES'')))"
  using kpi_export(1,2) [OF assms(1)] assms(2) by simp_all

lemma sorted_recognised:
  assumes "sorted (map mes_orden_key rs)"
  shows "sorted (map (\<lambda>k. order_value (month_order k))
                     (filter (\<lambda>k. month_order k \<noteq> None) (map (\<lambda>r. cell_at r 0) rs)))"
proof -
  let ?ks = "map (\<lambda>r. cell_at r 0) rs"
  let ?m = "\<lambda>k. case month_order k of Some n \<Rightarrow> n | None \<Rightarrow> 13"
  have eq: "map ?m ?ks = map mes_orden_key rs"
    by (simp add: mes_orden_key_def comp_def)
  have "sorted (map ?m ?ks)"
    unfolding eq by (rule assms)
  then have s: "sorted (map ?m (filter (\<lambda>k. month_order k \<noteq> None) ?ks))"
    by (rule sorted_filter)
  have recognised:
    "map ?m (filter (\<lambda>k. month_order k \<noteq> None) ?ks) =
     map (\<lambda>k. order_value (month_order k)) (filter (\<lambda>k. month_order k \<noteq> None) ?ks)"
    by (rule map_cong) (auto simp: order_value_def)
  show ?thesis
    using s unfolding recognised .
qed

lemma mes_viz_sorted:
  assumes "df_mes_viz py df = Inr t"
  shows "sorted (map mes_orden_key (rows t))"
  using assms
  by (auto simp: df_mes_viz_def empty_frame_def split: if_splits option.splits)

text \<open>
  Claim C4, as amended. When \<open>create_kpi_table\<close> groups by \<open>MES\<close> and the dataset has a
  \<open>FECHA\<close> column, the export table lists every month key of the data in the order of
  the grouping (sorted as values, so alphabetically for month abbreviations) and keeps
  the keys the month lookup does not know; only the display table is put in calendar
  order and loses the keys that are not in the lookup: its rows are the rows of the export
  table with a recognised month, formatted, and their calendar positions never decrease
  from one row to the next. On the population page the monthly summary is sorted by the
  calendar position of its keys, so the recognised months appear in calendar order.
\<close>

theorem month_order_in_display_table:
  "(create_kpi_table py df ''MES'' = Inr (Some (d, e)) \<and> ''FECHA'' \<in> set (columns df) \<longrightarrow>
      keys_of e = group_keys (column (drop_na_keys df ''MES'') ''MES'') \<and>
      sorted (map key_ord (keys_of e)) \<and>
      sorted (map (\<lambda>k. order_value (mes_order py k)) (keys_of d)) \<and>
      set (keys_of d) = {k \<in> set (keys_of e). mes_order py k \<noteq> None} \<and>
      length (keys_of d) = length (filter (\<lambda>k. mes_order py k \<noteq> None) (keys_of e)) \<and>
      (\<exists>rs. rows e = map export_row rs \<and>
            set (rows d) = display_row py ` {r \<in> set rs. mes_order py (fst r) \<noteq> None})) \<and>
   (df_mes_viz py df_pob = Inr t \<longrightarrow>
      sorted (map (\<lambda>k. order_value (month_order k))
                  (filter (\<lambda>k. month_order k \<noteq> None) (keys_of t))))"
proof (intro conjI impI)
  assume a: "create_kpi_table py df ''MES'' = Inr (Some (d, e)) \<and> ''FECHA'' \<in> set (columns df)"
  let ?rs = "map (metrics py) (kpi_groups py df ''MES'')"
  have e: "rows e = map export_row ?rs"
    and d: "rows d = map (display_row py) (order_by_month py ?rs)"
    using kpi_month_tables [of py df d e] a by simp_all
  have ke: "keys_of e = map fst ?rs"
    by (simp add: keys_of_def e export_row_key comp_def)
  have kd: "keys_of d = map fst (order_by_month py ?rs)"
    by (simp add: keys_of_def d display_row_key comp_def)
  have "map fst ?rs = map fst (kpi_groups py df ''MES'')"
    by (simp add: metrics_sums comp_def)
  then show k: "keys_of e = group_keys (column (drop_na_keys df ''MES'') ''MES'')"
    by (simp add: ke kpi_groups_keys)
  show "sorted (map key_ord (keys_of e))"
    unfolding k by (rule sorted_group_keys)
  have o: "keys_of d = sort_key (\<lambda>k. order_value (mes_order py k))
                    (filter (\<lambda>k. mes_order py k \<noteq> None) (keys_of e))"
    by (simp only: kd ke keys_order_by_month)
  show "sorted (map (\<lambda>k. order_value (mes_order py k)) (keys_of d))"
    unfolding o by (rule sorted_sort_key)
  show "set (keys_of d) = {k \<in> set (keys_of e). mes_order py k \<noteq> None}"
    unfolding o by auto
  show "length (keys_of d) = length (filter (\<lambda>k. mes_order py k \<noteq> None) (keys_of e))"
    unfolding o by simp
  have "set (rows d) = display_row py ` {r \<in> set ?rs. mes_order py (fst r) \<noteq> None}"
    unfolding d order_by_month_def by auto
  with e show "\<exists>rs. rows e = map export_row rs \<and>
            set (rows d) = display_row py ` {r \<in> set rs. mes_order py (fst r) \<noteq> None}"
    by blast
next
  assume "df_mes_viz py df_pob = Inr t"
  then have "sorted (map mes_orden_key (rows t))" by (rule mes_viz_sorted)
  then show "sorted (map (\<lambda>k. order_value (month_order k))
                  (filter (\<lambda>k. month_order k \<noteq> None) (keys_of t)))"
    unfolding keys_of_def by (rule sorted_recognised)
qed

lemma month_keys:
  "keys_of month_export = [S ''DIC'', S ''ENE'', S ''MAR'']"
  "keys_of month_display = [S ''ENE'', S ''MAR'', S ''DIC'']"
  "keys_of month_unknown_export = [S ''ENE'', S ''MAR'', S ''XYZ'']"
  "keys_of month_unknown_display = [S ''ENE'', S ''MAR'']"
  "keys_of month_pob_summary = [S ''ENERO'', S ''MARZO'', S ''DICIEMBRE'']"
  by (simp_all add: keys_of_def cell_at_def month_export_def month_display_def
      month_unknown_export_def month_unknown_display_def month_pob_summary_def)

text \<open>
  The months MAR, ENE, DIC: the display table reads ENE, MAR, DIC, the export table
  reads DIC, ENE, MAR.
\<close>

theorem export_table_in_group_order:
  "create_kpi_table example_host month_example ''MES'' =
     Inr (Some (month_display, month_export)) \<and>
   keys_of month_display = [S ''ENE'', S ''MAR'', S ''DIC''] \<and>
   keys_of month_export = [S ''DIC'', S ''ENE'', S ''MAR''] \<and>
   keys_of month_export \<noteq> [S ''ENE'', S ''MAR'', S ''DIC'']"
  by (simp add: month_run month_keys)

theorem month_order_in_display_table_witness:
  "create_kpi_table example_host month_example_unknown ''MES'' =
     Inr (Some (month_unknown_display, month_unknown_export)) \<and>
   ''FECHA'' \<in> set (columns month_example_unknown) \<and>
   keys_of month_unknown_export = [S ''ENE'', S ''MAR'', S ''XYZ''] \<and>
   sorted (map key_ord (keys_of month_unknown_export)) \<and>
   keys_of month_unknown_display = [S ''ENE'', S ''MAR''] \<and>
   set (keys_of month_unknown_display) =
     {k \<in> set (keys_of month_unknown_export). mes_order example_host k \<noteq> None} \<and>
   sorted (map (\<lambda>k. order_value (mes_order example_host k)) (keys_of month_unknown_display)) \<and>
   df_mes_viz example_host month_pob_example = Inr month_pob_summary \<and>
   keys_of month_pob_summary = [S ''ENERO'', S ''MARZO'', S ''DICIEMBRE''] \<and>
   sorted (map (\<lambda>k. order_value (month_order k))
               (filter (\<lambda>k. month_order k \<noteq> None) (keys_of month_pob_summary)))"
proof -
  note t = month_order_in_display_table [where py = example_host and df = month_example_unknown
      and d = month_unknown_display and e = month_unknown_export
      and df_pob = month_pob_example and t = month_pob_summary]
  have fecha: "''FECHA'' \<in> set (columns month_example_unknown)"
    by (simp add: month_example_unknown_def)
  from t month_unknown_run fecha
  have a: "sorted (map key_ord (keys_of month_unknown_export))"
    and b: "set (keys_of month_unknown_display) =
       {k \<in> set (keys_of month_unknown_export). mes_order example_host k \<noteq> None}"
    and c: "sorted (map (\<lambda>k. order_value (mes_order example_host k))
                        (keys_of month_unknown_display))"
    by blast+
  from t month_pob_run
  have p: "sorted (map (\<lambda>k. order_value (month_order k))
               (filter (\<lambda>k. month_order k \<noteq> None) (keys_of month_pob_summary)))"
    by blast
  show ?thesis
    by (intro conjI) (fact month_unknown_run fecha month_keys a b c month_pob_run p)+
qed


end
